theory Spec2Isabelle
  imports Main "HOL-Library.AList" "HOL-Library.Char_ord" "HOL-Library.List_Lexorder"
begin

section \<open>Strings and paths\<close>

text \<open>
  JavaScript strings are modelled as \<open>string\<close>. \<open>endsWith\<close> is
  \<^verbatim>\<open>String.prototype.endsWith\<close>; \<open>joinWith\<close> is \<^verbatim>\<open>Array.prototype.join\<close>.
\<close>

fun startsWith :: "string \<Rightarrow> string \<Rightarrow> bool" where
  "startsWith s [] = True"
| "startsWith [] (c # cs) = False"
| "startsWith (x # xs) (c # cs) = (x = c \<and> startsWith xs cs)"

definition endsWith :: "string \<Rightarrow> string \<Rightarrow> bool" where
  "endsWith s t = startsWith (rev s) (rev t)"

fun joinWith :: "string \<Rightarrow> string list \<Rightarrow> string" where
  "joinWith sep [] = []"
| "joinWith sep [x] = x"
| "joinWith sep (x # y # ys) = x @ sep @ joinWith sep (y # ys)"

fun splitOn :: "char \<Rightarrow> string \<Rightarrow> string list" where
  "splitOn sep [] = [[]]"
| "splitOn sep (c # cs) =
     (if c = sep then [] # splitOn sep cs
      else (case splitOn sep cs of s # ss \<Rightarrow> (c # s) # ss | [] \<Rightarrow> [[c]]))"

text \<open>
  \<^verbatim>\<open>content.replace(/\{timestamp\}/g, timestamp)\<close>: every occurrence of the token,
  scanning from the left, is replaced by the timestamp (an ISO-8601 string, which holds
  no \<^verbatim>\<open>$\<close> replacement pattern).
\<close>

function replaceTimestamp :: "string \<Rightarrow> string \<Rightarrow> string" where
  "replaceTimestamp ts [] = []"
| "replaceTimestamp ts (c # cs) =
     (if startsWith (c # cs) ''{timestamp}''
      then ts @ replaceTimestamp ts (drop (length ''{timestamp}'') (c # cs))
      else c # replaceTimestamp ts cs)"
  by pat_completeness auto
termination
  by (relation "measure (\<lambda>(ts, s). length s)") auto

text \<open>
  Node's \<^verbatim>\<open>path.join\<close> on a POSIX platform (library code, outside the repository),
  at the level of path segments: the non-empty arguments are joined with \<^verbatim>\<open>/\<close> and the
  result is normalised: empty and \<^verbatim>\<open>.\<close> segments are dropped, \<^verbatim>\<open>..\<close> removes the segment
  before it (and is kept at the front of a relative path).
\<close>

fun normStep :: "bool \<Rightarrow> string \<Rightarrow> string list \<Rightarrow> string list" where
  "normStep allowAboveRoot seg acc =
     (if seg = [] \<or> seg = ''.'' then acc
      else if seg = ''..'' then
        (case acc of
           [] \<Rightarrow> (if allowAboveRoot then [''..''] else [])
         | p # ps \<Rightarrow>
             (if p = ''..'' then (if allowAboveRoot then ''..'' # acc else acc) else ps))
      else seg # acc)"

definition normalizeString :: "string \<Rightarrow> bool \<Rightarrow> string" where
  "normalizeString p allowAboveRoot =
     joinWith ''/'' (rev (fold (normStep allowAboveRoot) (splitOn CHR ''/'' p) []))"

definition posix_normalize :: "string \<Rightarrow> string" where
  "posix_normalize p =
     (if p = [] then ''.''
      else
        let isAbsolute = (hd p = CHR ''/'');
            trailingSeparator = (last p = CHR ''/'');
            q = normalizeString p (\<not> isAbsolute)
        in if q = [] then (if isAbsolute then ''/'' else if trailingSeparator then ''./'' else ''.'')
           else (if isAbsolute then ''/'' else []) @ q @ (if trailingSeparator then ''/'' else []))"

definition path_join :: "string list \<Rightarrow> string" where
  "path_join args =
     (let joined = joinWith ''/'' (filter (\<lambda>a. a \<noteq> []) args)
      in if joined = [] then ''.'' else posix_normalize joined)"

text \<open>
  Lines 221-231 of \<^verbatim>\<open>setupProjectRules\<close>: the rules directory. \<^verbatim>\<open>if (workspacePath)\<close> is
  a truthiness test: an absent path and the empty string both take the last branch.
\<close>

definition resolveRulesDir :: "string option \<Rightarrow> string \<Rightarrow> string" where
  "resolveRulesDir workspacePath cwd =
     (case workspacePath of
        Some p \<Rightarrow>
          (if p \<noteq> [] then
             (if endsWith p (path_join [''.cursor'', ''rules'']) then p
              else path_join [p, ''.cursor'', ''rules''])
           else path_join [cwd, ''.cursor'', ''rules''])
      | None \<Rightarrow> path_join [cwd, ''.cursor'', ''rules''])"

section \<open>The history database\<close>

text \<open>
  The three tables of \<^verbatim>\<open>database.ts\<close>, each a list of rows in insertion order. The
  \<^verbatim>\<open>DATETIME DEFAULT CURRENT_TIMESTAMP\<close> columns hold the database clock at the insert, a
  number of seconds: the text form \<^verbatim>\<open>YYYY-MM-DD HH:MM:SS\<close> orders as the seconds do.
\<close>

record stored_fact =
  fact_id :: nat
  category :: string
  fact :: string
  fact_context :: "string option"
  tags :: "string list"
  createdAt :: nat
  updatedAt :: nat

record rule_deployment =
  dep_id :: nat
  templateVersion :: string
  deployedAt :: nat
  deployedBy :: "string option"
  totalFiles :: nat
  backupPath :: "string option"

record rule_file =
  file_id :: nat
  deploymentId :: nat
  rf_filename :: string
  contentHash :: string
  rf_deployedAt :: nat

record database =
  facts :: "stored_fact list"
  rule_deployments :: "rule_deployment list"
  rule_files :: "rule_file list"

text \<open>
  \<^verbatim>\<open>INTEGER PRIMARY KEY AUTOINCREMENT\<close> (\<^verbatim>\<open>this.lastID\<close> of the insert): one more than
  the greatest id of the table.
\<close>

definition lastID :: "nat list \<Rightarrow> nat" where
  "lastID ids = Suc (foldr max ids 0)"

definition storeFact ::
  "string \<Rightarrow> string \<Rightarrow> string option \<Rightarrow> string list \<Rightarrow> nat \<Rightarrow> database \<Rightarrow> nat \<times> database" where
  "storeFact cat f ctx tgs clock d =
     (let i = lastID (map fact_id (facts d))
      in (i, d\<lparr>facts := facts d @
            [\<lparr>fact_id = i, category = cat, fact = f, fact_context = ctx, tags = tgs,
              createdAt = clock, updatedAt = clock\<rparr>]\<rparr>))"

definition storeRuleDeployment ::
  "string \<Rightarrow> nat \<Rightarrow> string option \<Rightarrow> string option \<Rightarrow> nat \<Rightarrow> database \<Rightarrow> nat \<times> database" where
  "storeRuleDeployment tv cnt who bp clock d =
     (let i = lastID (map dep_id (rule_deployments d))
      in (i, d\<lparr>rule_deployments := rule_deployments d @
            [\<lparr>dep_id = i, templateVersion = tv, deployedAt = clock, deployedBy = who,
              totalFiles = cnt, backupPath = bp\<rparr>]\<rparr>))"

definition storeRuleFile ::
  "nat \<Rightarrow> string \<Rightarrow> string \<Rightarrow> nat \<Rightarrow> database \<Rightarrow> nat \<times> database" where
  "storeRuleFile depId fname h clock d =
     (let i = lastID (map file_id (rule_files d))
      in (i, d\<lparr>rule_files := rule_files d @
            [\<lparr>file_id = i, deploymentId = depId, rf_filename = fname, contentHash = h,
              rf_deployedAt = clock\<rparr>]\<rparr>))"

text \<open>
  \<^verbatim>\<open>SELECT * FROM rule_deployments ORDER BY deployed_at DESC LIMIT 1\<close>. The query has one
  sort key. \<open>latestCandidates\<close> are the rows with the greatest \<open>deployed_at\<close>, in
  insertion order; which of them comes first when several share it is the database
  engine's choice, the parameter \<open>tie\<close> (an index into the candidates).
\<close>

definition latestCandidates :: "rule_deployment list \<Rightarrow> rule_deployment list" where
  "latestCandidates rows =
     filter (\<lambda>r. \<forall>r' \<in> set rows. deployedAt r' \<le> deployedAt r) rows"

definition getLatestRuleDeployment ::
  "(rule_deployment list \<Rightarrow> nat) \<Rightarrow> database \<Rightarrow> rule_deployment option" where
  "getLatestRuleDeployment tie d =
     (let cs = latestCandidates (rule_deployments d)
      in if cs = [] then None else Some (cs ! (tie cs mod length cs)))"

text \<open>
  \<^verbatim>\<open>SELECT * FROM rule_files WHERE deployment_id = ? ORDER BY filename\<close>: text compares
  byte by byte; rows with the same filename stay in insertion order.
\<close>

definition getRuleFiles :: "database \<Rightarrow> nat \<Rightarrow> rule_file list" where
  "getRuleFiles d depId =
     sort_key rf_filename (filter (\<lambda>f. deploymentId f = depId) (rule_files d))"

definition getLatestRuleFiles ::
  "(rule_deployment list \<Rightarrow> nat) \<Rightarrow> database \<Rightarrow> rule_file list" where
  "getLatestRuleFiles tie d =
     (case getLatestRuleDeployment tie d of
        None \<Rightarrow> []
      | Some latestDeployment \<Rightarrow> getRuleFiles d (dep_id latestDeployment))"

section \<open>The rule templates\<close>

record cursor_rule =
  filename :: string
  content :: string

text \<open>
  \<^verbatim>\<open>CURSOR_RULES_TEMPLATES\<close> is a constant list of eight rules; the operations below
  take the list as the parameter \<open>templates\<close>. These are its filenames, in order.
\<close>

definition TEMPLATE_FILENAMES :: "string list" where
  "TEMPLATE_FILENAMES =
     [''code-style.mdc'', ''architecture.mdc'', ''testing.mdc'', ''security.mdc'',
      ''performance.mdc'', ''documentation.mdc'', ''git-workflow.mdc'', ''accessibility.mdc'']"

definition TEMPLATE_VERSION :: string where
  "TEMPLATE_VERSION = ''2.0.0''"

text \<open>Lines 280-291: the rendered rules and the \<^verbatim>\<open>Map\<close> of their hashes (a later entry
  for the same filename replaces an earlier one).\<close>

definition renderRules :: "string \<Rightarrow> cursor_rule list \<Rightarrow> cursor_rule list" where
  "renderRules timestamp templates =
     map (\<lambda>template. template\<lparr>content := replaceTimestamp timestamp (content template)\<rparr>) templates"

definition newHashesOf :: "(string \<Rightarrow> string) \<Rightarrow> cursor_rule list \<Rightarrow> (string \<rightharpoonup> string)" where
  "newHashesOf generateHash newRules =
     fold (\<lambda>rule m. m(filename rule \<mapsto> generateHash (content rule))) newRules Map.empty"

section \<open>The environment and the rules directory\<close>

text \<open>
  What one invocation reads from outside: the clock of the process (\<open>now\<close>, the ISO
  string of \<^verbatim>\<open>new Date()\<close>), the clock of the database, the working directory, and
  which filesystem calls throw. The SHA-256 of \<^verbatim>\<open>generateHash\<close> is the parameter
  \<open>generateHash\<close> of the operations.
\<close>

record env =
  now :: string
  dbClock :: nat
  cwd :: string
  rulesDirUnwritable :: bool
  readdirFails :: bool
  readFileFails :: "string \<Rightarrow> bool"
  copyFileFails :: "string \<Rightarrow> bool"
  writeFileFails :: "string \<Rightarrow> bool"
  accessFails :: "string \<Rightarrow> bool"

text \<open>
  The state: the regular files of the resolved rules directory (name and content, in
  listing order), the backup directories under it (path and copied files), and the
  database.
\<close>

record world =
  rulesDirFiles :: "(string \<times> string) list"
  backupDirs :: "(string \<times> (string \<times> string) list) list"
  db :: database

datatype setup_error =
  CannotWriteRulesDir string
  | CopyFileFailed string
  | FailedToWriteRuleFile string
  | NotNullConstraintFailed string
  | RuleFileMissingAfterWrite string

text \<open>
  The three results of the operation and the thrown error. The warning carries the
  \<open>deployedAt\<close> of the latest deployment (absent prints as Unknown), its \<open>deployedBy\<close>
  (absent or empty prints as Unknown) and the modified filenames; the success message
  carries the deployment id, the deployed filenames and the backup path.
\<close>

datatype outcome =
  AlreadyUpToDate
  | ModificationWarning "nat option" string "string list"
  | Deployed nat "string list" "string option"
  | Failed setup_error

text \<open>Lines 255-273: the \<^verbatim>\<open>.mdc\<close> files of the directory and the hashes of those that
  can be read.\<close>

definition existingFilesOf :: "env \<Rightarrow> (string \<times> string) list \<Rightarrow> string list" where
  "existingFilesOf e dir =
     (if readdirFails e then [] else filter (\<lambda>f. endsWith f ''.mdc'') (map fst dir))"

definition existingHashesOf ::
  "(string \<Rightarrow> string) \<Rightarrow> env \<Rightarrow> (string \<times> string) list \<Rightarrow> string list \<Rightarrow> (string \<rightharpoonup> string)" where
  "existingHashesOf generateHash e dir existingFiles =
     fold (\<lambda>fname m.
             if readFileFails e fname then m
             else (case map_of dir fname of
                     None \<Rightarrow> m
                   | Some c \<Rightarrow> m(fname \<mapsto> generateHash c)))
          existingFiles Map.empty"

text \<open>Lines 296-305 and 327-332. A hash is truthy when it is present and not empty.\<close>

definition modifiedSince :: "(string \<rightharpoonup> string) \<Rightarrow> rule_file \<Rightarrow> bool" where
  "modifiedSince existingHashes ruleFile =
     (case existingHashes (rf_filename ruleFile) of
        None \<Rightarrow> False
      | Some currentHash \<Rightarrow> currentHash \<noteq> [] \<and> currentHash \<noteq> contentHash ruleFile)"

definition hasChangesOf :: "(string \<rightharpoonup> string) \<Rightarrow> rule_file list \<Rightarrow> bool" where
  "hasChangesOf existingHashes latestRuleFiles =
     list_ex (modifiedSince existingHashes) latestRuleFiles"

definition hasNewTemplateOf ::
  "(string \<rightharpoonup> string) \<Rightarrow> (string \<rightharpoonup> string) \<Rightarrow> cursor_rule list \<Rightarrow> bool" where
  "hasNewTemplateOf existingHashes newHashes newRules =
     list_ex (\<lambda>rule.
        let existingHash = existingHashes (filename rule);
            newHash = newHashes (filename rule)
        in existingHash = None \<or> existingHash = Some [] \<or> existingHash \<noteq> newHash) newRules"

definition orUnknown :: "string option \<Rightarrow> string" where
  "orUnknown v = (case v of None \<Rightarrow> ''Unknown'' | Some s \<Rightarrow> if s = [] then ''Unknown'' else s)"

section \<open>The write path\<close>

text \<open>Lines 353-365: the backup directory is created, then each existing file is
  copied; the first copy that throws ends the loop and leaves the earlier copies.\<close>

definition backupTimestampOf :: "string \<Rightarrow> string" where
  "backupTimestampOf ts = map (\<lambda>c. if c = CHR '':'' \<or> c = CHR ''.'' then CHR ''-'' else c) ts"

definition backupPathOf :: "string \<Rightarrow> string \<Rightarrow> string" where
  "backupPathOf rulesDir ts =
     path_join [path_join [rulesDir, ''backups''], ''backup-'' @ backupTimestampOf ts]"

definition mkdirBackup ::
  "string \<Rightarrow> (string \<times> (string \<times> string) list) list \<Rightarrow> (string \<times> (string \<times> string) list) list" where
  "mkdirBackup p dirs = (if map_of dirs p = None then dirs @ [(p, [])] else dirs)"

fun copyFiles ::
  "env \<Rightarrow> (string \<times> string) list \<Rightarrow> string list \<Rightarrow> (string \<times> string) list
     \<Rightarrow> setup_error option \<times> (string \<times> string) list" where
  "copyFiles e dir [] bk = (None, bk)"
| "copyFiles e dir (fname # rest) bk =
     (if copyFileFails e fname then (Some (CopyFileFailed fname), bk)
      else (case map_of dir fname of
              None \<Rightarrow> (Some (CopyFileFailed fname), bk)
            | Some c \<Rightarrow> copyFiles e dir rest (AList.update fname c bk)))"

definition backupExistingFiles ::
  "env \<Rightarrow> string \<Rightarrow> string list \<Rightarrow> world \<Rightarrow> setup_error option \<times> world" where
  "backupExistingFiles e bp existingFiles w =
     (let dirs = mkdirBackup bp (backupDirs w);
          bk = (case map_of dirs bp of None \<Rightarrow> [] | Some b \<Rightarrow> b);
          (err, bk') = copyFiles e (rulesDirFiles w) existingFiles bk
      in (err, w\<lparr>backupDirs := AList.update bp bk' dirs\<rparr>))"

text \<open>Lines 376-393: each rule is written, then its row is stored, then its name is
  pushed. \<^verbatim>\<open>content_hash\<close> is \<^verbatim>\<open>NOT NULL\<close>: an absent hash makes the insert fail.\<close>

fun writeRules ::
  "env \<Rightarrow> string \<Rightarrow> nat \<Rightarrow> (string \<rightharpoonup> string) \<Rightarrow> cursor_rule list \<Rightarrow> world \<Rightarrow> string list
     \<Rightarrow> setup_error option \<times> world \<times> string list" where
  "writeRules e rulesDir depId newHashes [] w deployedFiles = (None, w, deployedFiles)"
| "writeRules e rulesDir depId newHashes (rule # rest) w deployedFiles =
     (if writeFileFails e (filename rule)
      then (Some (FailedToWriteRuleFile (path_join [rulesDir, filename rule])), w, deployedFiles)
      else
        let w1 = w\<lparr>rulesDirFiles := AList.update (filename rule) (content rule) (rulesDirFiles w)\<rparr>
        in (case newHashes (filename rule) of
              None \<Rightarrow> (Some (NotNullConstraintFailed (filename rule)), w1, deployedFiles)
            | Some h \<Rightarrow>
                writeRules e rulesDir depId newHashes rest
                  (w1\<lparr>db := snd (storeRuleFile depId (filename rule) h (dbClock e) (db w1))\<rparr>)
                  (deployedFiles @ [filename rule])))"

text \<open>Lines 396-403.\<close>

fun verifyFiles :: "env \<Rightarrow> string \<Rightarrow> (string \<times> string) list \<Rightarrow> string list \<Rightarrow> setup_error option" where
  "verifyFiles e rulesDir dir [] = None"
| "verifyFiles e rulesDir dir (fname # rest) =
     (if accessFails e fname \<or> map_of dir fname = None
      then Some (RuleFileMissingAfterWrite (path_join [rulesDir, fname]))
      else verifyFiles e rulesDir dir rest)"

function decimal :: "nat \<Rightarrow> string" where
  "decimal n =
     (if n < 10 then [''0123456789'' ! n] else decimal (n div 10) @ [''0123456789'' ! (n mod 10)])"
  by pat_completeness auto
termination
  by (relation "measure id") auto

declare decimal.simps [simp del]

text \<open>Lines 367-456: deployment row, files and their rows, verification, fact.\<close>

definition deployRules ::
  "env \<Rightarrow> string \<Rightarrow> cursor_rule list \<Rightarrow> (string \<rightharpoonup> string) \<Rightarrow> string option \<Rightarrow> string option
     \<Rightarrow> world \<Rightarrow> outcome \<times> world" where
  "deployRules e rulesDir newRules newHashes deployed_by bp w =
     (let (deploymentId, d2) =
            storeRuleDeployment TEMPLATE_VERSION (length newRules) deployed_by bp
              (dbClock e) (db w);
          (werr, w3, deployedFiles) =
            writeRules e rulesDir deploymentId newHashes newRules (w\<lparr>db := d2\<rparr>) []
      in case werr of
           Some err \<Rightarrow> (Failed err, w3)
         | None \<Rightarrow>
            (case verifyFiles e rulesDir (rulesDirFiles w3) deployedFiles of
               Some err \<Rightarrow> (Failed err, w3)
             | None \<Rightarrow>
                (Deployed deploymentId deployedFiles bp,
                 w3\<lparr>db := snd (storeFact ''project-setup''
                          (''Cursor project rules deployed (v'' @ TEMPLATE_VERSION @ '') - ''
                             @ decimal (length newRules) @ '' files'')
                          (Some (''Deployed by: '' @ orUnknown deployed_by @ '', Files: ''
                             @ joinWith '', '' deployedFiles))
                          [''cursor-rules'', ''deployment'', ''project-setup'', ''mdc-format'']
                          (dbClock e) (db w3))\<rparr>)))"

text \<open>Lines 347-365, then the rest: the backup is made when it is requested and the
  directory holds \<^verbatim>\<open>.mdc\<close> files; a copy that throws ends the operation.\<close>

definition writePhase ::
  "env \<Rightarrow> string \<Rightarrow> string list \<Rightarrow> cursor_rule list \<Rightarrow> (string \<rightharpoonup> string) \<Rightarrow> bool \<Rightarrow> string option
     \<Rightarrow> world \<Rightarrow> outcome \<times> world" where
  "writePhase e rulesDir existingFiles newRules newHashes backupExisting deployed_by w =
     (if backupExisting \<and> existingFiles \<noteq> [] then
        (let bp = backupPathOf rulesDir (now e);
             (berr, w1) = backupExistingFiles e bp existingFiles w
         in case berr of
              Some err \<Rightarrow> (Failed err, w1)
            | None \<Rightarrow> deployRules e rulesDir newRules newHashes deployed_by (Some bp) w1)
      else deployRules e rulesDir newRules newHashes deployed_by None w)"

section \<open>setupProjectRules\<close>

text \<open>
  Lines 214-463. The probe of lines 236-246 writes \<^verbatim>\<open>.write_test\<close> into the directory
  and unlinks it, so no file of that name is left; when the probe throws, the state is
  taken as it was. The parameters before \<open>e\<close> stand for the SHA-256, the engine's choice
  among tied rows and \<^verbatim>\<open>CURSOR_RULES_TEMPLATES\<close>. The database is open and its inserts
  succeed; every insert of one invocation reads the same database clock.
\<close>

definition probeRulesDir :: "world \<Rightarrow> world" where
  "probeRulesDir w = w\<lparr>rulesDirFiles := AList.delete ''.write_test'' (rulesDirFiles w)\<rparr>"

definition setupProjectRules ::
  "(string \<Rightarrow> string) \<Rightarrow> (rule_deployment list \<Rightarrow> nat) \<Rightarrow> cursor_rule list \<Rightarrow> env
     \<Rightarrow> bool \<Rightarrow> bool \<Rightarrow> string option \<Rightarrow> string option \<Rightarrow> world \<Rightarrow> outcome \<times> world" where
  "setupProjectRules generateHash tie templates e forceUpdate backupExisting deployed_by workspacePath w =
     (let rulesDir = resolveRulesDir workspacePath (cwd e)
      in if rulesDirUnwritable e then (Failed (CannotWriteRulesDir rulesDir), w)
         else
           let w0 = probeRulesDir w;
               existingFiles = existingFilesOf e (rulesDirFiles w0);
               existingHashes = existingHashesOf generateHash e (rulesDirFiles w0) existingFiles;
               latestDeployment = getLatestRuleDeployment tie (db w0);
               latestRuleFiles = getLatestRuleFiles tie (db w0);
               newRules = renderRules (now e) templates;
               newHashes = newHashesOf generateHash newRules;
               checked = (existingFiles \<noteq> [] \<and> \<not> forceUpdate);
               hasChanges = hasChangesOf existingHashes latestRuleFiles;
               hasNewTemplate = hasNewTemplateOf existingHashes newHashes newRules
           in if checked \<and> \<not> hasChanges \<and> \<not> hasNewTemplate then (AlreadyUpToDate, w0)
              else if checked \<and> hasChanges then
                (ModificationWarning
                   (map_option deployedAt latestDeployment)
                   (orUnknown (case latestDeployment of None \<Rightarrow> None | Some l \<Rightarrow> deployedBy l))
                   (map rf_filename (filter (modifiedSince existingHashes) latestRuleFiles)),
                 w0)
              else writePhase e rulesDir existingFiles newRules newHashes backupExisting deployed_by w0)"

section \<open>Invariants of the history and example inputs\<close>



text \<open>The part of a file row that the operation decides: deployment, name and hash.\<close>

definition fileKey :: "rule_file \<Rightarrow> nat \<times> string \<times> string" where
  "fileKey f = (deploymentId f, rf_filename f, contentHash f)"

text \<open>The rules written before the first write that throws.\<close>

definition writtenRules :: "env \<Rightarrow> cursor_rule list \<Rightarrow> cursor_rule list" where
  "writtenRules e newRules = takeWhile (\<lambda>rule. \<not> writeFileFails e (filename rule)) newRules"

definition writeAll :: "cursor_rule list \<Rightarrow> (string \<times> string) list \<Rightarrow> (string \<times> string) list" where
  "writeAll rules dir = fold (\<lambda>rule. AList.update (filename rule) (content rule)) rules dir"

text \<open>The hashes of the inventory, as \<open>setupProjectRules\<close> computes them after the
  probe.\<close>

definition currentHashes :: "(string \<Rightarrow> string) \<Rightarrow> env \<Rightarrow> world \<Rightarrow> (string \<rightharpoonup> string)" where
  "currentHashes generateHash e w =
     existingHashesOf generateHash e (rulesDirFiles (probeRulesDir w))
       (existingFilesOf e (rulesDirFiles (probeRulesDir w)))"

text \<open>Small inputs for the examples: a stand-in hash that is injective and never empty,
  an environment without faults, two templates without the timestamp token, and the
  state of a first run.\<close>

definition exampleHash :: "string \<Rightarrow> string" where
  "exampleHash s = CHR ''#'' # s"

definition exampleTie :: "rule_deployment list \<Rightarrow> nat" where
  "exampleTie cs = 0"

definition exampleEnv :: env where
  "exampleEnv =
     \<lparr>now = ''2025-01-02T03:04:05.678Z'', dbClock = 100, cwd = ''/home/u'',
      rulesDirUnwritable = False, readdirFails = False, readFileFails = (\<lambda>f. False),
      copyFileFails = (\<lambda>f. False), writeFileFails = (\<lambda>f. False), accessFails = (\<lambda>f. False)\<rparr>"

definition exampleTemplates :: "cursor_rule list" where
  "exampleTemplates =
     [\<lparr>filename = ''a.mdc'', content = ''A''\<rparr>, \<lparr>filename = ''b.mdc'', content = ''B''\<rparr>]"

definition emptyWorld :: world where
  "emptyWorld =
     \<lparr>rulesDirFiles = [], backupDirs = [],
      db = \<lparr>facts = [], rule_deployments = [], rule_files = []\<rparr>\<rparr>"

definition deployedWorld :: world where
  "deployedWorld =
     \<lparr>rulesDirFiles = [(''a.mdc'', ''A''), (''b.mdc'', ''B'')], backupDirs = [],
      db = \<lparr>facts =
              [\<lparr>fact_id = 1, category = ''project-setup'',
                fact = ''Cursor project rules deployed (v2.0.0) - 2 files'',
                fact_context = Some ''Deployed by: me, Files: a.mdc, b.mdc'',
                tags = [''cursor-rules'', ''deployment'', ''project-setup'', ''mdc-format''],
                createdAt = 100, updatedAt = 100\<rparr>],
            rule_deployments =
              [\<lparr>dep_id = 1, templateVersion = ''2.0.0'', deployedAt = 100,
                deployedBy = Some ''me'', totalFiles = 2, backupPath = None\<rparr>],
            rule_files =
              [\<lparr>file_id = 1, deploymentId = 1, rf_filename = ''a.mdc'', contentHash = ''#A'',
                rf_deployedAt = 100\<rparr>,
               \<lparr>file_id = 2, deploymentId = 1, rf_filename = ''b.mdc'', contentHash = ''#B'',
                rf_deployedAt = 100\<rparr>]\<rparr>\<rparr>"







text \<open>The state after a deployment in which \<open>b.mdc\<close> was then edited by hand, and a
  state in which the latest deployment recorded another hash for \<open>a.mdc\<close> than the
  content now on disk, which is the rendered template.\<close>

definition editedWorld :: world where
  "editedWorld = deployedWorld\<lparr>rulesDirFiles := [(''a.mdc'', ''A''), (''b.mdc'', ''edited'')]\<rparr>"

definition staleRecordWorld :: world where
  "staleRecordWorld =
     \<lparr>rulesDirFiles = [(''a.mdc'', ''A''), (''b.mdc'', ''B'')], backupDirs = [],
      db = \<lparr>facts = [],
            rule_deployments =
              [\<lparr>dep_id = 1, templateVersion = ''2.0.0'', deployedAt = 100,
                deployedBy = Some ''me'', totalFiles = 2, backupPath = None\<rparr>],
            rule_files =
              [\<lparr>file_id = 1, deploymentId = 1, rf_filename = ''a.mdc'', contentHash = ''#old'',
                rf_deployedAt = 100\<rparr>,
               \<lparr>file_id = 2, deploymentId = 1, rf_filename = ''b.mdc'', contentHash = ''#B'',
                rf_deployedAt = 100\<rparr>]\<rparr>\<rparr>"

text \<open>The rendered rules as pairs of name and content.\<close>

definition rulePairs :: "cursor_rule list \<Rightarrow> (string \<times> string) list" where
  "rulePairs rules = map (\<lambda>r. (filename r, content r)) rules"

text \<open>Environments in which the write of one file throws, and the states a first run
  ends in there.\<close>

definition firstWriteFailsEnv :: env where
  "firstWriteFailsEnv = exampleEnv\<lparr>writeFileFails := (\<lambda>f. f = ''a.mdc'')\<rparr>"

definition secondWriteFailsEnv :: env where
  "secondWriteFailsEnv = exampleEnv\<lparr>writeFileFails := (\<lambda>f. f = ''b.mdc'')\<rparr>"

definition orphanRowWorld :: world where
  "orphanRowWorld =
     \<lparr>rulesDirFiles = [], backupDirs = [],
      db = \<lparr>facts = [],
            rule_deployments =
              [\<lparr>dep_id = 1, templateVersion = ''2.0.0'', deployedAt = 100,
                deployedBy = Some ''me'', totalFiles = 2, backupPath = None\<rparr>],
            rule_files = []\<rparr>\<rparr>"

definition halfWrittenWorld :: world where
  "halfWrittenWorld =
     \<lparr>rulesDirFiles = [(''a.mdc'', ''A'')], backupDirs = [],
      db = \<lparr>facts = [],
            rule_deployments =
              [\<lparr>dep_id = 1, templateVersion = ''2.0.0'', deployedAt = 100,
                deployedBy = Some ''me'', totalFiles = 2, backupPath = None\<rparr>],
            rule_files =
              [\<lparr>file_id = 1, deploymentId = 1, rf_filename = ''a.mdc'', contentHash = ''#A'',
                rf_deployedAt = 100\<rparr>]\<rparr>\<rparr>"

text \<open>The deployment row of \<open>deployedWorld\<close> and its file row for \<open>b.mdc\<close>.\<close>

definition deployedRow :: rule_deployment where
  "deployedRow =
     \<lparr>dep_id = 1, templateVersion = ''2.0.0'', deployedAt = 100, deployedBy = Some ''me'',
      totalFiles = 2, backupPath = None\<rparr>"

definition recordedB :: rule_file where
  "recordedB =
     \<lparr>file_id = 2, deploymentId = 1, rf_filename = ''b.mdc'', contentHash = ''#B'',
      rf_deployedAt = 100\<rparr>"

text \<open>The file row of \<open>staleRecordWorld\<close> for \<open>a.mdc\<close>.\<close>

definition staleRecordA :: rule_file where
  "staleRecordA =
     \<lparr>file_id = 1, deploymentId = 1, rf_filename = ''a.mdc'', contentHash = ''#old'',
      rf_deployedAt = 100\<rparr>"



text \<open>A state whose latest deployment recorded \<open>old.mdc\<close>, a file that is neither on disk
  nor among the templates; the two template files are on disk as deployed.\<close>

definition retiredFileWorld :: world where
  "retiredFileWorld =
     \<lparr>rulesDirFiles = [(''a.mdc'', ''A''), (''b.mdc'', ''B'')], backupDirs = [],
      db = \<lparr>facts = [],
            rule_deployments =
              [\<lparr>dep_id = 1, templateVersion = ''1.0.0'', deployedAt = 100,
                deployedBy = Some ''me'', totalFiles = 3, backupPath = None\<rparr>],
            rule_files =
              [\<lparr>file_id = 1, deploymentId = 1, rf_filename = ''a.mdc'', contentHash = ''#A'',
                rf_deployedAt = 100\<rparr>,
               \<lparr>file_id = 2, deploymentId = 1, rf_filename = ''b.mdc'', contentHash = ''#B'',
                rf_deployedAt = 100\<rparr>,
               \<lparr>file_id = 3, deploymentId = 1, rf_filename = ''old.mdc'', contentHash = ''#O'',
                rf_deployedAt = 100\<rparr>]\<rparr>\<rparr>"

definition recordedOld :: rule_file where
  "recordedOld =
     \<lparr>file_id = 3, deploymentId = 1, rf_filename = ''old.mdc'', contentHash = ''#O'',
      rf_deployedAt = 100\<rparr>"

text \<open>The state after a deployment in which \<open>b.mdc\<close> was then deleted.\<close>

definition deletedFileWorld :: world where
  "deletedFileWorld = deployedWorld\<lparr>rulesDirFiles := [(''a.mdc'', ''A'')]\<rparr>"


text \<open>The template token.\<close>

fun containsToken :: "string \<Rightarrow> bool" where
  "containsToken [] = False"
| "containsToken (c # cs) = (startsWith (c # cs) ''{timestamp}'' \<or> containsToken cs)"

text \<open>The environment of a later call: both clocks have advanced, the faults are the
  same.\<close>

definition laterEnv :: env where
  "laterEnv = exampleEnv\<lparr>now := ''2025-01-02T03:05:00.000Z'', dbClock := 155\<rparr>"

section \<open>Frame lemmas of the write path\<close>

lemma backupExistingFiles_frame:
  assumes "backupExistingFiles e bp fs w = (err, w')"
  shows "db w' = db w \<and> rulesDirFiles w' = rulesDirFiles w"
  using assms by (auto simp: backupExistingFiles_def Let_def split: prod.splits)

lemma writeRules_frame:
  assumes "writeRules e rd depId nh rules w acc = (err, w', files)"
  shows "facts (db w') = facts (db w) \<and> rule_deployments (db w') = rule_deployments (db w)
         \<and> backupDirs w' = backupDirs w"
  using assms
proof (induction rules arbitrary: w acc)
  case Nil
  then show ?case by simp
next
  case (Cons rule rest)
  show ?case
  proof (cases "writeFileFails e (filename rule)")
    case True
    with Cons.prems show ?thesis by simp
  next
    case False
    show ?thesis
    proof (cases "nh (filename rule)")
      case None
      with False Cons.prems show ?thesis by (auto simp: Let_def)
    next
      case (Some h)
      with False Cons.prems Cons.IH show ?thesis
        by (fastforce simp: Let_def storeRuleFile_def)
    qed
  qed
qed

lemma deployRules_Deployed_facts:
  assumes "deployRules e rd nr nh who bp0 w = (Deployed i fs bp, w')"
  shows "\<exists>row. facts (db w') = facts (db w) @ [row] \<and> category row = ''project-setup''
           \<and> tags row = [''cursor-rules'', ''deployment'', ''project-setup'', ''mdc-format'']"
proof -
  obtain werr w3 files where
    wr: "writeRules e rd (lastID (map dep_id (rule_deployments (db w)))) nh nr
           (w\<lparr>db := snd (storeRuleDeployment TEMPLATE_VERSION (length nr) who bp0 (dbClock e) (db w))\<rparr>) []
         = (werr, w3, files)"
    by (metis prod_cases3)
  from writeRules_frame[OF wr] have f: "facts (db w3) = facts (db w)"
    by (simp add: storeRuleDeployment_def Let_def)
  from assms wr f show ?thesis
    by (auto simp: deployRules_def storeRuleDeployment_def storeFact_def Let_def
        split: option.splits)
qed

lemma writePhase_Deployed_facts:
  assumes "writePhase e rd ex nr nh bk who w = (Deployed i fs bp, w')"
  shows "\<exists>row. facts (db w') = facts (db w) @ [row] \<and> category row = ''project-setup''
           \<and> tags row = [''cursor-rules'', ''deployment'', ''project-setup'', ''mdc-format'']"
proof (cases "bk \<and> ex \<noteq> []")
  case False
  with assms have "deployRules e rd nr nh who None w = (Deployed i fs bp, w')"
    by (simp add: writePhase_def)
  then show ?thesis by (rule deployRules_Deployed_facts)
next
  case True
  obtain berr w1 where b: "backupExistingFiles e (backupPathOf rd (now e)) ex w = (berr, w1)"
    by (cases "backupExistingFiles e (backupPathOf rd (now e)) ex w")
  from backupExistingFiles_frame[OF b] have d: "db w1 = db w" by simp
  from assms True b have
    "deployRules e rd nr nh who (Some (backupPathOf rd (now e))) w1 = (Deployed i fs bp, w')"
    by (cases berr) (simp_all add: writePhase_def Let_def)
  from deployRules_Deployed_facts[OF this] d show ?thesis by simp
qed

lemma setupProjectRules_Deployed_writePhase:
  assumes "setupProjectRules H tie templates e forceUpdate backupExisting who wp w
             = (Deployed i fs bp, w')"
  shows "writePhase e (resolveRulesDir wp (cwd e))
           (existingFilesOf e (rulesDirFiles (probeRulesDir w)))
           (renderRules (now e) templates) (newHashesOf H (renderRules (now e) templates))
           backupExisting who (probeRulesDir w)
         = (Deployed i fs bp, w')"
  using assms by (simp add: setupProjectRules_def Let_def split: if_splits)

lemma example_first_run:
  "setupProjectRules exampleHash exampleTie exampleTemplates exampleEnv False True
     (Some ''me'') (Some ''/p'') emptyWorld
   = (Deployed 1 [''a.mdc'', ''b.mdc''] None, deployedWorld)"
  by code_simp

section \<open>The fact stored by a deployment\<close>

text \<open>
  C9. Every invocation of \<open>setupProjectRules\<close> that ends in a deployment appends exactly
  one row to the facts table, after the rows that were there; its category is
  \<open>project-setup\<close> and its tags include \<open>cursor-rules\<close> and \<open>deployment\<close>. So the facts
  table is not the same before and after a successful deployment.
\<close>

theorem deployment_stores_one_fact:
  assumes "setupProjectRules H tie templates e forceUpdate backupExisting who wp w
             = (Deployed i fs bp, w')"
  shows "\<exists>row. facts (db w') = facts (db w) @ [row] \<and> category row = ''project-setup''
           \<and> ''cursor-rules'' \<in> set (tags row) \<and> ''deployment'' \<in> set (tags row)
           \<and> facts (db w') \<noteq> facts (db w)"
proof -
  from writePhase_Deployed_facts[OF setupProjectRules_Deployed_writePhase[OF assms]]
  obtain row where "facts (db w') = facts (db (probeRulesDir w)) @ [row]" "category row = ''project-setup''"
    "tags row = [''cursor-rules'', ''deployment'', ''project-setup'', ''mdc-format'']"
    by auto
  then show ?thesis by (auto simp: probeRulesDir_def)
qed

theorem deployment_stores_one_fact_witness:
  "setupProjectRules exampleHash exampleTie exampleTemplates exampleEnv False True
     (Some ''me'') (Some ''/p'') emptyWorld
   = (Deployed 1 [''a.mdc'', ''b.mdc''] None, deployedWorld)
   \<and> (\<exists>row. facts (db deployedWorld) = facts (db emptyWorld) @ [row]
         \<and> category row = ''project-setup''
         \<and> ''cursor-rules'' \<in> set (tags row) \<and> ''deployment'' \<in> set (tags row)
         \<and> facts (db deployedWorld) \<noteq> facts (db emptyWorld))"
  using deployment_stores_one_fact[OF example_first_run] example_first_run by simp

section \<open>The latest deployment\<close>






lemma set_getLatestRuleFiles:
  "set (getLatestRuleFiles tie d) =
     (case getLatestRuleDeployment tie d of
        None \<Rightarrow> {}
      | Some l \<Rightarrow> {f \<in> set (rule_files d). deploymentId f = dep_id l})"
  by (auto simp: getLatestRuleFiles_def getRuleFiles_def split: option.splits)




section \<open>The inventory and the three-way decision\<close>

lemma startsWith_append: "startsWith (t @ s) t"
  by (induction t) auto

lemma startsWith_iff: "startsWith s t \<longleftrightarrow> (\<exists>r. s = t @ r)"
  by (induction s t rule: startsWith.induct) auto

lemma endsWith_iff: "endsWith s t \<longleftrightarrow> (\<exists>p. s = p @ t)"
proof
  assume "endsWith s t"
  then obtain r where "rev s = rev t @ r" by (auto simp: endsWith_def startsWith_iff)
  then have "s = rev r @ t" by (metis rev_append rev_rev_ident)
  then show "\<exists>p. s = p @ t" by blast
next
  assume "\<exists>p. s = p @ t"
  then show "endsWith s t" by (auto simp: endsWith_def startsWith_append)
qed

lemma mdc_not_probe: "endsWith f ''.mdc'' \<Longrightarrow> f \<noteq> ''.write_test''"
  by (auto simp: endsWith_def)

lemma fold_hashes:
  "fold (\<lambda>fname m. if readFileFails e fname then m
                    else (case map_of dir fname of None \<Rightarrow> m | Some c \<Rightarrow> m(fname \<mapsto> H c))) fs m0 f
   = (if f \<in> set fs \<and> \<not> readFileFails e f \<and> map_of dir f \<noteq> None
      then map_option H (map_of dir f) else m0 f)"
  by (induction fs arbitrary: m0) (auto split: option.splits)

lemma existingHashesOf_apply:
  "existingHashesOf H e dir fs f
   = (if f \<in> set fs \<and> \<not> readFileFails e f then map_option H (map_of dir f) else None)"
  unfolding existingHashesOf_def by (subst fold_hashes) auto

lemma currentHashes_apply:
  "currentHashes H e w f =
     (if \<not> readdirFails e \<and> endsWith f ''.mdc'' \<and> \<not> readFileFails e f
      then map_option H (map_of (rulesDirFiles w) f) else None)"
proof (cases "endsWith f ''.mdc''")
  case True
  then have ne: "f \<noteq> ''.write_test''" by (rule mdc_not_probe)
  have "f \<in> fst ` set (AList.delete ''.write_test'' (rulesDirFiles w)) \<or>
        map_of (AList.delete ''.write_test'' (rulesDirFiles w)) f = None"
    by (metis map_of_eq_None_iff)
  with ne True show ?thesis
    by (auto simp: currentHashes_def existingHashesOf_apply existingFilesOf_def probeRulesDir_def)
next
  case False
  then show ?thesis
    by (auto simp: currentHashes_def existingHashesOf_apply existingFilesOf_def)
qed

lemma inventory_nonempty:
  assumes "\<not> readdirFails e" "endsWith f ''.mdc''" "map_of (rulesDirFiles w) f = Some c"
  shows "existingFilesOf e (rulesDirFiles (probeRulesDir w)) \<noteq> []"
proof -
  from assms(2) have "f \<noteq> ''.write_test''" by (rule mdc_not_probe)
  with assms(3) have "map_of (AList.delete ''.write_test'' (rulesDirFiles w)) f = Some c" by simp
  then have "f \<in> fst ` set (AList.delete ''.write_test'' (rulesDirFiles w))"
    by (metis map_of_eq_None_iff option.distinct(1))
  with assms(1,2) have "f \<in> set (existingFilesOf e (rulesDirFiles (probeRulesDir w)))"
    by (auto simp: existingFilesOf_def probeRulesDir_def)
  then show ?thesis by auto
qed

lemma setupProjectRules_cases:
  assumes "\<not> rulesDirUnwritable e"
  shows "setupProjectRules H tie templates e forceUpdate backupExisting who wp w =
    (let checked = (existingFilesOf e (rulesDirFiles (probeRulesDir w)) \<noteq> [] \<and> \<not> forceUpdate);
         hasChanges = hasChangesOf (currentHashes H e w) (getLatestRuleFiles tie (db w));
         hasNewTemplate = hasNewTemplateOf (currentHashes H e w)
            (newHashesOf H (renderRules (now e) templates)) (renderRules (now e) templates)
     in if checked \<and> \<not> hasChanges \<and> \<not> hasNewTemplate then (AlreadyUpToDate, probeRulesDir w)
        else if checked \<and> hasChanges then
          (ModificationWarning
             (map_option deployedAt (getLatestRuleDeployment tie (db w)))
             (orUnknown (case getLatestRuleDeployment tie (db w) of None \<Rightarrow> None | Some l \<Rightarrow> deployedBy l))
             (map rf_filename (filter (modifiedSince (currentHashes H e w)) (getLatestRuleFiles tie (db w)))),
           probeRulesDir w)
        else writePhase e (resolveRulesDir wp (cwd e)) (existingFilesOf e (rulesDirFiles (probeRulesDir w)))
               (renderRules (now e) templates) (newHashesOf H (renderRules (now e) templates))
               backupExisting who (probeRulesDir w))"
proof -
  have "db (probeRulesDir w) = db w" by (simp add: probeRulesDir_def)
  with assms show ?thesis
    by (simp add: setupProjectRules_def Let_def currentHashes_def)
qed

lemma drift_warning:
  assumes "\<not> rulesDirUnwritable e" "\<not> forceUpdate" "\<not> readdirFails e"
    and "endsWith A ''.mdc''" "map_of (rulesDirFiles w) A = Some c" "\<not> readFileFails e A"
    and "H c \<noteq> []" "rf \<in> set (getLatestRuleFiles tie (db w))" "rf_filename rf = A"
    and "contentHash rf \<noteq> H c"
  shows "setupProjectRules H tie templates e forceUpdate backupExisting who wp w =
    (ModificationWarning
             (map_option deployedAt (getLatestRuleDeployment tie (db w)))
             (orUnknown (case getLatestRuleDeployment tie (db w) of None \<Rightarrow> None | Some l \<Rightarrow> deployedBy l))
             (map rf_filename (filter (modifiedSince (currentHashes H e w)) (getLatestRuleFiles tie (db w)))),
           probeRulesDir w)
    \<and> A \<in> set (map rf_filename (filter (modifiedSince (currentHashes H e w)) (getLatestRuleFiles tie (db w))))"
proof -
  have cur: "currentHashes H e w A = Some (H c)"
    using assms by (simp add: currentHashes_apply)
  with assms have m: "modifiedSince (currentHashes H e w) rf"
    by (auto simp: modifiedSince_def)
  with assms(8) have hc: "hasChangesOf (currentHashes H e w) (getLatestRuleFiles tie (db w))"
    by (auto simp: hasChangesOf_def list_ex_iff)
  have ne: "existingFilesOf e (rulesDirFiles (probeRulesDir w)) \<noteq> []"
    using inventory_nonempty[OF assms(3,4,5)] .
  from m assms(8,9) have "A \<in> set (map rf_filename (filter (modifiedSince (currentHashes H e w)) (getLatestRuleFiles tie (db w))))"
    by force
  with hc ne assms(1,2) show ?thesis
    by (simp add: setupProjectRules_cases Let_def)
qed

section \<open>The hashes of the rendered rules and the write loop\<close>

lemma fold_newHashes:
  "fold (\<lambda>rule m. m(filename rule \<mapsto> H (content rule))) rules m0 f
   = (case map_of (rev (rulePairs rules)) f of Some c \<Rightarrow> Some (H c) | None \<Rightarrow> m0 f)"
  by (induction rules arbitrary: m0) (auto simp: rulePairs_def split: option.splits)

lemma newHashesOf_apply:
  "newHashesOf H rules f = map_option H (map_of (rev (rulePairs rules)) f)"
  by (simp add: newHashesOf_def fold_newHashes split: option.splits)

lemma rulePairs_defined:
  "r \<in> set rules \<Longrightarrow> map_of (rev (rulePairs rules)) (filename r) \<noteq> None"
  by (auto simp: rulePairs_def map_of_eq_None_iff image_image)

lemma newHashesOf_defined: "r \<in> set rules \<Longrightarrow> newHashesOf H rules (filename r) \<noteq> None"
  by (simp add: newHashesOf_apply rulePairs_defined)

lemma newHashesOf_distinct:
  assumes "distinct (map filename rules)" "r \<in> set rules"
  shows "newHashesOf H rules (filename r) = Some (H (content r))"
proof -
  have "distinct (map fst (rev (rulePairs rules)))"
    using assms(1) by (simp add: rulePairs_def rev_map[symmetric] comp_def)
  moreover have "(filename r, content r) \<in> set (rev (rulePairs rules))"
    using assms(2) by (auto simp: rulePairs_def)
  ultimately have "map_of (rev (rulePairs rules)) (filename r) = Some (content r)"
    by (rule map_of_is_SomeI)
  then show ?thesis by (simp add: newHashesOf_apply)
qed



lemma writeRules_result:
  assumes "\<forall>r \<in> set rules. nh (filename r) \<noteq> None"
      and "writeRules e rd i nh rules w acc = (err, w', files)"
  shows "rulesDirFiles w' = writeAll (writtenRules e rules) (rulesDirFiles w)
       \<and> map fileKey (rule_files (db w')) = map fileKey (rule_files (db w))
            @ map (\<lambda>r. (i, filename r, the (nh (filename r)))) (writtenRules e rules)
       \<and> files = acc @ map filename (writtenRules e rules)
       \<and> (err = None \<longleftrightarrow> writtenRules e rules = rules)
       \<and> (\<forall>x. err = Some x \<longrightarrow> (\<exists>r \<in> set rules. writeFileFails e (filename r)
              \<and> x = FailedToWriteRuleFile (path_join [rd, filename r])))"
  using assms
proof (induction rules arbitrary: w acc)
  case Nil
  then show ?case by (simp add: writtenRules_def writeAll_def)
next
  case (Cons rule rest)
  show ?case
  proof (cases "writeFileFails e (filename rule)")
    case True
    with Cons.prems show ?thesis by (auto simp: writtenRules_def writeAll_def)
  next
    case False
    from Cons.prems(1) obtain h where h: "nh (filename rule) = Some h" by auto
    let ?w1 = "w\<lparr>rulesDirFiles := AList.update (filename rule) (content rule) (rulesDirFiles w)\<rparr>"
    let ?w2 = "?w1\<lparr>db := snd (storeRuleFile i (filename rule) h (dbClock e) (db ?w1))\<rparr>"
    from Cons.prems(2) False h
    have run: "writeRules e rd i nh rest ?w2 (acc @ [filename rule]) = (err, w', files)"
      by (simp add: Let_def)
    from Cons.prems(1) have "\<forall>r \<in> set rest. nh (filename r) \<noteq> None" by simp
    from Cons.IH[OF this run] False h show ?thesis
      by (simp add: writtenRules_def writeAll_def storeRuleFile_def Let_def fileKey_def)
  qed
qed

lemma verifyFiles_None_iff:
  "verifyFiles e rd dir fs = None \<longleftrightarrow> (\<forall>f \<in> set fs. \<not> accessFails e f \<and> map_of dir f \<noteq> None)"
  by (induction fs) auto

lemma deployRules_result:
  assumes "deployRules e rd nr (newHashesOf H nr) who bp w = (out, w')"
  shows "rule_deployments (db w') = rule_deployments (db w) @
           [\<lparr>dep_id = lastID (map dep_id (rule_deployments (db w))),
             templateVersion = TEMPLATE_VERSION, deployedAt = dbClock e, deployedBy = who,
             totalFiles = length nr, backupPath = bp\<rparr>]
       \<and> rulesDirFiles w' = writeAll (writtenRules e nr) (rulesDirFiles w)
       \<and> map fileKey (rule_files (db w')) = map fileKey (rule_files (db w))
            @ map (\<lambda>r. (lastID (map dep_id (rule_deployments (db w))), filename r,
                         the (newHashesOf H nr (filename r)))) (writtenRules e nr)
       \<and> backupDirs w' = backupDirs w
       \<and> ((writtenRules e nr \<noteq> nr \<and> (\<exists>r \<in> set nr. writeFileFails e (filename r)
               \<and> out = Failed (FailedToWriteRuleFile (path_join [rd, filename r]))))
          \<or> (writtenRules e nr = nr \<and> (\<exists>f. out = Failed (RuleFileMissingAfterWrite f)))
          \<or> (writtenRules e nr = nr
               \<and> out = Deployed (lastID (map dep_id (rule_deployments (db w)))) (map filename nr) bp))"
proof -
  let ?i = "lastID (map dep_id (rule_deployments (db w)))"
  let ?d2 = "snd (storeRuleDeployment TEMPLATE_VERSION (length nr) who bp (dbClock e) (db w))"
  obtain werr w3 files where
    wr: "writeRules e rd ?i (newHashesOf H nr) nr (w\<lparr>db := ?d2\<rparr>) [] = (werr, w3, files)"
    by (metis prod_cases3)
  have def: "\<forall>r \<in> set nr. newHashesOf H nr (filename r) \<noteq> None"
    by (simp add: newHashesOf_defined)
  note res = writeRules_result[OF def wr]
  note fr = writeRules_frame[OF wr]
  have d2: "rule_deployments ?d2 = rule_deployments (db w) @
           [\<lparr>dep_id = ?i, templateVersion = TEMPLATE_VERSION, deployedAt = dbClock e,
             deployedBy = who, totalFiles = length nr, backupPath = bp\<rparr>]"
    "rule_files ?d2 = rule_files (db w)" "facts ?d2 = facts (db w)"
    by (simp_all add: storeRuleDeployment_def Let_def)
  have unf: "deployRules e rd nr (newHashesOf H nr) who bp w =
     (case werr of Some err \<Rightarrow> (Failed err, w3)
      | None \<Rightarrow> (case verifyFiles e rd (rulesDirFiles w3) files of
           Some err \<Rightarrow> (Failed err, w3)
         | None \<Rightarrow> (Deployed ?i files bp,
                 w3\<lparr>db := snd (storeFact ''project-setup''
                          (''Cursor project rules deployed (v'' @ TEMPLATE_VERSION @ '') - ''
                             @ decimal (length nr) @ '' files'')
                          (Some (''Deployed by: '' @ orUnknown who @ '', Files: ''
                             @ joinWith '', '' files))
                          [''cursor-rules'', ''deployment'', ''project-setup'', ''mdc-format'']
                          (dbClock e) (db w3))\<rparr>)))"
    using wr by (simp add: deployRules_def storeRuleDeployment_def Let_def)
  show ?thesis
  proof (cases werr)
    case (Some x)
    with assms unf have o: "out = Failed x" "w' = w3" by auto
    from Some res have "writtenRules e nr \<noteq> nr"
      "\<exists>r \<in> set nr. writeFileFails e (filename r) \<and> x = FailedToWriteRuleFile (path_join [rd, filename r])"
      by auto
    with o res fr d2 show ?thesis by auto
  next
    case None
    with res have all: "writtenRules e nr = nr" by simp
    show ?thesis
    proof (cases "verifyFiles e rd (rulesDirFiles w3) files")
      case (Some x)
      with assms unf None have o: "out = Failed x" "w' = w3" by auto
      from Some have "\<exists>f. x = RuleFileMissingAfterWrite f"
        by (induction files) (auto split: if_splits)
      with o res fr d2 all show ?thesis by auto
    next
      case vn: None
      with assms unf None have o: "out = Deployed ?i files bp"
        "rulesDirFiles w' = rulesDirFiles w3" "rule_deployments (db w') = rule_deployments (db w3)"
        "rule_files (db w') = rule_files (db w3)" "backupDirs w' = backupDirs w3"
        by (auto simp: storeFact_def Let_def)
      with res fr d2 all show ?thesis by auto
    qed
  qed
qed

section \<open>The outcomes of the operation\<close>

lemma copyFiles_error:
  "copyFiles e dir fs bk = (Some x, bk') \<Longrightarrow> \<exists>f \<in> set fs. x = CopyFileFailed f"
  by (induction fs arbitrary: bk) (auto split: if_splits option.splits)


lemma backupExistingFiles_error:
  assumes "backupExistingFiles e bp fs w = (Some x, w')"
  shows "\<exists>f \<in> set fs. x = CopyFileFailed f"
proof -
  let ?dirs = "mkdirBackup bp (backupDirs w)"
  let ?bk = "case map_of ?dirs bp of None \<Rightarrow> [] | Some b \<Rightarrow> b"
  obtain err bk' where c: "copyFiles e (rulesDirFiles w) fs ?bk = (err, bk')"
    by (cases "copyFiles e (rulesDirFiles w) fs ?bk")
  with assms have "err = Some x" by (simp add: backupExistingFiles_def Let_def)
  with c show ?thesis by (auto dest: copyFiles_error)
qed


lemma writePhase_result:
  assumes "writePhase e rd ex nr nh bk who w = (out, w')"
  shows "((\<exists>f. out = Failed (CopyFileFailed f)) \<and> bk \<and> ex \<noteq> [] \<and> db w' = db w
            \<and> rulesDirFiles w' = rulesDirFiles w)
       \<or> (\<exists>w1 bp. db w1 = db w \<and> rulesDirFiles w1 = rulesDirFiles w
            \<and> (bp = None \<longleftrightarrow> \<not> (bk \<and> ex \<noteq> [])) \<and> (bp = None \<longrightarrow> w1 = w)
            \<and> deployRules e rd nr nh who bp w1 = (out, w'))"
proof (cases "bk \<and> ex \<noteq> []")
  case False
  with assms have "deployRules e rd nr nh who None w = (out, w')"
    by (simp add: writePhase_def)
  with False show ?thesis by blast
next
  case True
  obtain berr w1 where b: "backupExistingFiles e (backupPathOf rd (now e)) ex w = (berr, w1)"
    by (cases "backupExistingFiles e (backupPathOf rd (now e)) ex w")
  note fr = backupExistingFiles_frame[OF b]
  show ?thesis
  proof (cases berr)
    case None
    with assms True b have
      "deployRules e rd nr nh who (Some (backupPathOf rd (now e))) w1 = (out, w')"
      by (simp add: writePhase_def Let_def)
    with fr True show ?thesis by blast
  next
    case (Some x)
    with assms True b have o: "out = Failed x" "w' = w1"
      by (simp_all add: writePhase_def Let_def)
    from b Some backupExistingFiles_error have "\<exists>f. x = CopyFileFailed f" by blast
    with o fr True show ?thesis by auto
  qed
qed

lemma setupProjectRules_outcomes:
  assumes "setupProjectRules H tie templates e forceUpdate backupExisting who wp w = (out, w')"
  shows "(rulesDirUnwritable e \<and> out = Failed (CannotWriteRulesDir (resolveRulesDir wp (cwd e))) \<and> w' = w)
       \<or> (\<not> rulesDirUnwritable e \<and> (out = AlreadyUpToDate \<or> (\<exists>a b c. out = ModificationWarning a b c))
            \<and> w' = probeRulesDir w \<and> existingFilesOf e (rulesDirFiles (probeRulesDir w)) \<noteq> []
            \<and> \<not> forceUpdate)
       \<or> (\<not> rulesDirUnwritable e \<and> (\<exists>f. out = Failed (CopyFileFailed f)) \<and> backupExisting
            \<and> existingFilesOf e (rulesDirFiles (probeRulesDir w)) \<noteq> [] \<and> db w' = db w
            \<and> rulesDirFiles w' = rulesDirFiles (probeRulesDir w))
       \<or> (\<not> rulesDirUnwritable e \<and> (\<exists>w1 bp. db w1 = db w
            \<and> rulesDirFiles w1 = rulesDirFiles (probeRulesDir w)
            \<and> (bp = None \<longleftrightarrow> \<not> (backupExisting \<and> existingFilesOf e (rulesDirFiles (probeRulesDir w)) \<noteq> []))
            \<and> (bp = None \<longrightarrow> w1 = probeRulesDir w)
            \<and> deployRules e (resolveRulesDir wp (cwd e)) (renderRules (now e) templates)
                 (newHashesOf H (renderRules (now e) templates)) who bp w1 = (out, w')))"
proof (cases "rulesDirUnwritable e")
  case True
  with assms show ?thesis by (simp add: setupProjectRules_def Let_def)
next
  case False
  let ?ex = "existingFilesOf e (rulesDirFiles (probeRulesDir w))"
  let ?nr = "renderRules (now e) templates"
  let ?hc = "hasChangesOf (currentHashes H e w) (getLatestRuleFiles tie (db w))"
  let ?hn = "hasNewTemplateOf (currentHashes H e w) (newHashesOf H ?nr) ?nr"
  note c = setupProjectRules_cases[OF False, of H tie templates forceUpdate backupExisting who wp w]
  have dbp: "db (probeRulesDir w) = db w" by (simp add: probeRulesDir_def)
  consider (utd) "?ex \<noteq> [] \<and> \<not> forceUpdate" "\<not> ?hc" "\<not> ?hn"
    | (warn) "?ex \<noteq> [] \<and> \<not> forceUpdate" "?hc"
    | (towrite) "\<not> (?ex \<noteq> [] \<and> \<not> forceUpdate) \<or> (\<not> ?hc \<and> ?hn)"
    by blast
  then show ?thesis
  proof cases
    case utd
    with assms c False show ?thesis by (simp add: Let_def)
  next
    case warn
    with assms c False show ?thesis by (auto simp: Let_def)
  next
    case towrite
    with assms c have
      "writePhase e (resolveRulesDir wp (cwd e)) ?ex ?nr (newHashesOf H ?nr) backupExisting who
         (probeRulesDir w) = (out, w')"
      by (auto simp: Let_def)
    from writePhase_result[OF this] False dbp show ?thesis by auto
  qed
qed


lemma filenames_renderRules: "map filename (renderRules ts templates) = map filename templates"
  by (simp add: renderRules_def)


section \<open>The order of the write path\<close>

lemma example_first_write_fails:
  "setupProjectRules exampleHash exampleTie exampleTemplates firstWriteFailsEnv False True
     (Some ''me'') (Some ''/p'') emptyWorld
   = (Failed (FailedToWriteRuleFile ''/p/.cursor/rules/a.mdc''), orphanRowWorld)"
  by code_simp

lemma example_second_write_fails:
  "setupProjectRules exampleHash exampleTie exampleTemplates secondWriteFailsEnv False True
     (Some ''me'') (Some ''/p'') emptyWorld
   = (Failed (FailedToWriteRuleFile ''/p/.cursor/rules/b.mdc''), halfWrittenWorld)"
  by code_simp

text \<open>
  C1, as the code has it. In the write path the deployment row is stored first (after
  the optional backup) and before any rule file is written; then each rule is written
  and, right after its write, its file row is stored with the hash of its rendered
  content; the check that the files are present comes after all rows. So whenever the
  operation reaches the store, also when it then fails on a write or on the check, the
  history holds one new deployment row whose \<open>totalFiles\<close> is the number of templates,
  and the file rows and the files on disk are those of the rules before the first
  write that throws.
\<close>

theorem deployment_row_is_stored_before_the_files:
  assumes run: "setupProjectRules H tie templates e forceUpdate backupExisting who wp w = (out, w')"
    and reached: "out = Deployed i fs bp \<or> out = Failed (FailedToWriteRuleFile p)
                  \<or> out = Failed (RuleFileMissingAfterWrite p)"
    and dist: "distinct (map filename templates)"
  shows "\<exists>row. rule_deployments (db w') = rule_deployments (db w) @ [row]
           \<and> totalFiles row = length templates
           \<and> rulesDirFiles w' = writeAll (writtenRules e (renderRules (now e) templates))
                                   (rulesDirFiles (probeRulesDir w))
           \<and> map fileKey (rule_files (db w')) = map fileKey (rule_files (db w))
                @ map (\<lambda>r. (dep_id row, filename r, H (content r)))
                      (writtenRules e (renderRules (now e) templates))
           \<and> ((\<exists>q. out = Failed (FailedToWriteRuleFile q))
                \<longleftrightarrow> writtenRules e (renderRules (now e) templates) \<noteq> renderRules (now e) templates)"
proof -
  let ?nr = "renderRules (now e) templates"
  let ?i = "lastID (map dep_id (rule_deployments (db w)))"
  from setupProjectRules_outcomes[OF run] reached
  obtain w1 bp1 where w1: "db w1 = db w" "rulesDirFiles w1 = rulesDirFiles (probeRulesDir w)"
    and dr: "deployRules e (resolveRulesDir wp (cwd e)) ?nr (newHashesOf H ?nr) who bp1 w1 = (out, w')"
    by auto
  note res = deployRules_result[OF dr]
  have d: "distinct (map filename ?nr)" using dist by (simp add: filenames_renderRules)
  have "\<And>r. r \<in> set (writtenRules e ?nr) \<Longrightarrow> the (newHashesOf H ?nr (filename r)) = H (content r)"
  proof -
    fix r assume "r \<in> set (writtenRules e ?nr)"
    then have "r \<in> set ?nr" unfolding writtenRules_def by (rule set_takeWhileD[THEN conjunct1])
    from newHashesOf_distinct[OF d this] show "the (newHashesOf H ?nr (filename r)) = H (content r)"
      by simp
  qed
  then have hs: "map (\<lambda>r. (?i, filename r, the (newHashesOf H ?nr (filename r)))) (writtenRules e ?nr)
        = map (\<lambda>r. (?i, filename r, H (content r))) (writtenRules e ?nr)"
    by simp
  let ?row = "\<lparr>dep_id = ?i, templateVersion = TEMPLATE_VERSION, deployedAt = dbClock e,
               deployedBy = who, totalFiles = length ?nr, backupPath = bp1\<rparr>"
  have len: "length ?nr = length templates" by (simp add: renderRules_def)
  from res w1 hs len have
    "rule_deployments (db w') = rule_deployments (db w) @ [?row]
       \<and> totalFiles ?row = length templates
       \<and> rulesDirFiles w' = writeAll (writtenRules e ?nr) (rulesDirFiles (probeRulesDir w))
       \<and> map fileKey (rule_files (db w')) = map fileKey (rule_files (db w))
            @ map (\<lambda>r. (dep_id ?row, filename r, H (content r))) (writtenRules e ?nr)
       \<and> ((\<exists>q. out = Failed (FailedToWriteRuleFile q)) \<longleftrightarrow> writtenRules e ?nr \<noteq> ?nr)"
    by auto
  then show ?thesis by blast
qed

theorem deployment_row_is_stored_before_the_files_witness:
  "setupProjectRules exampleHash exampleTie exampleTemplates secondWriteFailsEnv False True
     (Some ''me'') (Some ''/p'') emptyWorld
   = (Failed (FailedToWriteRuleFile ''/p/.cursor/rules/b.mdc''), halfWrittenWorld)
   \<and> distinct (map filename exampleTemplates)
   \<and> (\<exists>row. rule_deployments (db halfWrittenWorld) = rule_deployments (db emptyWorld) @ [row]
         \<and> totalFiles row = length exampleTemplates
         \<and> rulesDirFiles halfWrittenWorld
             = writeAll (writtenRules secondWriteFailsEnv
                           (renderRules (now secondWriteFailsEnv) exampleTemplates))
                        (rulesDirFiles (probeRulesDir emptyWorld))
         \<and> map fileKey (rule_files (db halfWrittenWorld)) = map fileKey (rule_files (db emptyWorld))
              @ map (\<lambda>r. (dep_id row, filename r, exampleHash (content r)))
                    (writtenRules secondWriteFailsEnv
                       (renderRules (now secondWriteFailsEnv) exampleTemplates))
         \<and> ((\<exists>q. Failed (FailedToWriteRuleFile ''/p/.cursor/rules/b.mdc'')
                   = Failed (FailedToWriteRuleFile q))
              \<longleftrightarrow> writtenRules secondWriteFailsEnv
                     (renderRules (now secondWriteFailsEnv) exampleTemplates)
                   \<noteq> renderRules (now secondWriteFailsEnv) exampleTemplates))"
proof -
  have d: "distinct (map filename exampleTemplates)"
    by (simp add: exampleTemplates_def)
  have r: "Failed (FailedToWriteRuleFile ''/p/.cursor/rules/b.mdc'') = Deployed 0 [] None
           \<or> Failed (FailedToWriteRuleFile ''/p/.cursor/rules/b.mdc'')
              = Failed (FailedToWriteRuleFile ''/p/.cursor/rules/b.mdc'')
           \<or> Failed (FailedToWriteRuleFile ''/p/.cursor/rules/b.mdc'')
              = Failed (RuleFileMissingAfterWrite ''/p/.cursor/rules/b.mdc'')"
    by simp
  from deployment_row_is_stored_before_the_files[OF example_second_write_fails r d]
    example_second_write_fails d
  show ?thesis by blast
qed

text \<open>
  When the write of the first rule throws, the operation ends in that error with no
  rule file on disk, and the history, empty before, holds a deployment row.
\<close>

theorem deployment_row_before_writes_counterexample:
  "setupProjectRules exampleHash exampleTie exampleTemplates firstWriteFailsEnv False True
     (Some ''me'') (Some ''/p'') emptyWorld
   = (Failed (FailedToWriteRuleFile ''/p/.cursor/rules/a.mdc''), orphanRowWorld)
   \<and> rule_deployments (db emptyWorld) = []
   \<and> rulesDirFiles orphanRowWorld = []
   \<and> length (rule_deployments (db orphanRowWorld)) = 1
   \<and> rule_files (db orphanRowWorld) = []"
  using example_first_write_fails by (simp add: emptyWorld_def orphanRowWorld_def)

section \<open>The file count of a deployment\<close>








section \<open>Already up to date, and drift\<close>

lemma writePhase_not_noop:
  assumes "writePhase e rd ex nr (newHashesOf H nr) bk who w = (out, w')"
  shows "out \<noteq> AlreadyUpToDate \<and> (\<forall>a b c. out \<noteq> ModificationWarning a b c)"
proof -
  from writePhase_result[OF assms]
  consider (copy) f where "out = Failed (CopyFileFailed f)"
    | (deploy) w1 bp where "deployRules e rd nr (newHashesOf H nr) who bp w1 = (out, w')"
    by blast
  then show ?thesis
  proof cases
    case copy
    then show ?thesis by simp
  next
    case deploy
    from deployRules_result[OF deploy] show ?thesis by auto
  qed
qed

lemma hasChangesOf_iff:
  "hasChangesOf cur latest \<longleftrightarrow>
     (\<exists>rf \<in> set latest. \<exists>h. cur (rf_filename rf) = Some h \<and> h \<noteq> [] \<and> h \<noteq> contentHash rf)"
  by (auto simp: hasChangesOf_def modifiedSince_def list_ex_iff split: option.splits)

lemma hasNewTemplateOf_iff:
  "\<not> hasNewTemplateOf cur nh nr \<longleftrightarrow>
     (\<forall>rule \<in> set nr. \<exists>h. h \<noteq> [] \<and> cur (filename rule) = Some h \<and> nh (filename rule) = Some h)"
  by (auto simp: hasNewTemplateOf_def list_ex_iff Let_def)

lemma example_drift_run:
  "setupProjectRules exampleHash exampleTie exampleTemplates exampleEnv False True
     (Some ''me'') (Some ''/p'') editedWorld
   = (ModificationWarning (Some 100) ''me'' [''b.mdc''], editedWorld)"
  by code_simp

lemma example_stale_run:
  "setupProjectRules exampleHash exampleTie exampleTemplates exampleEnv False True
     (Some ''me'') (Some ''/p'') staleRecordWorld
   = (ModificationWarning (Some 100) ''me'' [''a.mdc''], staleRecordWorld)"
  by code_simp

text \<open>
  C3, as the code has it. When the rules directory is writable, \<open>setupProjectRules\<close>
  reports already up to date exactly when the inventory is not empty, \<open>forceUpdate\<close> is
  false, no file recorded in the latest deployment has a hash on disk that differs from
  its recorded hash, and every template artifact has a hash on disk equal to its desired
  hash. The template test compares desired with on-disk hashes, but the other test
  compares on-disk with last-deployed hashes: a file on disk whose hash differs from the
  hash the latest deployment recorded for it gives the warning that lists the file, and
  nothing is written; this holds in particular when its content is the rendered template.
\<close>

theorem up_to_date_compares_disk_with_template_and_record:
  assumes writable: "\<not> rulesDirUnwritable e"
    and run: "setupProjectRules H tie templates e forceUpdate backupExisting who wp w = (out, w')"
  shows "(out = AlreadyUpToDate \<longleftrightarrow>
            existingFilesOf e (rulesDirFiles (probeRulesDir w)) \<noteq> [] \<and> \<not> forceUpdate
            \<and> (\<forall>rf \<in> set (getLatestRuleFiles tie (db w)). \<forall>h.
                  currentHashes H e w (rf_filename rf) = Some h \<longrightarrow> h = [] \<or> h = contentHash rf)
            \<and> (\<forall>rule \<in> set (renderRules (now e) templates). \<exists>h. h \<noteq> []
                  \<and> currentHashes H e w (filename rule) = Some h
                  \<and> newHashesOf H (renderRules (now e) templates) (filename rule) = Some h))
       \<and> (\<not> forceUpdate \<and> \<not> readdirFails e \<and> endsWith F ''.mdc''
            \<and> map_of (rulesDirFiles w) F = Some c \<and> \<not> readFileFails e F \<and> H c \<noteq> []
            \<and> rf \<in> set (getLatestRuleFiles tie (db w)) \<and> rf_filename rf = F
            \<and> contentHash rf \<noteq> H c
          \<longrightarrow> (\<exists>a b modified. out = ModificationWarning a b modified \<and> F \<in> set modified)
              \<and> w' = probeRulesDir w)"
proof (intro conjI impI)
  let ?ex = "existingFilesOf e (rulesDirFiles (probeRulesDir w))"
  let ?nr = "renderRules (now e) templates"
  let ?hc = "hasChangesOf (currentHashes H e w) (getLatestRuleFiles tie (db w))"
  let ?hn = "hasNewTemplateOf (currentHashes H e w) (newHashesOf H ?nr) ?nr"
  note c = setupProjectRules_cases[OF writable, of H tie templates forceUpdate backupExisting who wp w]
  have "out = AlreadyUpToDate \<longleftrightarrow> ?ex \<noteq> [] \<and> \<not> forceUpdate \<and> \<not> ?hc \<and> \<not> ?hn"
  proof (cases "?ex \<noteq> [] \<and> \<not> forceUpdate \<and> \<not> ?hc \<and> \<not> ?hn")
    case True
    with run c show ?thesis by (simp add: Let_def)
  next
    case False
    show ?thesis
    proof (cases "?ex \<noteq> [] \<and> \<not> forceUpdate \<and> ?hc")
      case True
      with run c False show ?thesis by (auto simp: Let_def)
    next
      case nw: False
      with run c False have
        "writePhase e (resolveRulesDir wp (cwd e)) ?ex ?nr (newHashesOf H ?nr) backupExisting who
           (probeRulesDir w) = (out, w')"
        by (auto simp: Let_def)
      from writePhase_not_noop[OF this] False show ?thesis by simp
    qed
  qed
  then show "out = AlreadyUpToDate \<longleftrightarrow>
            ?ex \<noteq> [] \<and> \<not> forceUpdate
            \<and> (\<forall>rf \<in> set (getLatestRuleFiles tie (db w)). \<forall>h.
                  currentHashes H e w (rf_filename rf) = Some h \<longrightarrow> h = [] \<or> h = contentHash rf)
            \<and> (\<forall>rule \<in> set ?nr. \<exists>h. h \<noteq> []
                  \<and> currentHashes H e w (filename rule) = Some h
                  \<and> newHashesOf H ?nr (filename rule) = Some h)"
    unfolding hasNewTemplateOf_iff hasChangesOf_iff by blast
next
  assume a: "\<not> forceUpdate \<and> \<not> readdirFails e \<and> endsWith F ''.mdc''
            \<and> map_of (rulesDirFiles w) F = Some c \<and> \<not> readFileFails e F \<and> H c \<noteq> []
            \<and> rf \<in> set (getLatestRuleFiles tie (db w)) \<and> rf_filename rf = F
            \<and> contentHash rf \<noteq> H c"
  from a have "setupProjectRules H tie templates e forceUpdate backupExisting who wp w =
    (ModificationWarning
             (map_option deployedAt (getLatestRuleDeployment tie (db w)))
             (orUnknown (case getLatestRuleDeployment tie (db w) of None \<Rightarrow> None | Some l \<Rightarrow> deployedBy l))
             (map rf_filename (filter (modifiedSince (currentHashes H e w)) (getLatestRuleFiles tie (db w)))),
           probeRulesDir w)
    \<and> F \<in> set (map rf_filename (filter (modifiedSince (currentHashes H e w)) (getLatestRuleFiles tie (db w))))"
    by (intro drift_warning[where H=H and c=c, OF writable]) auto
  with run show "\<exists>a b modified. out = ModificationWarning a b modified \<and> F \<in> set modified"
    by auto
  from \<open>setupProjectRules H tie templates e forceUpdate backupExisting who wp w = _ \<and> _\<close> run
  show "w' = probeRulesDir w" by auto
qed

theorem up_to_date_compares_disk_with_template_and_record_witness:
  "\<not> rulesDirUnwritable exampleEnv
   \<and> setupProjectRules exampleHash exampleTie exampleTemplates exampleEnv False True
       (Some ''me'') (Some ''/p'') staleRecordWorld
     = (ModificationWarning (Some 100) ''me'' [''a.mdc''], staleRecordWorld)
   \<and> \<not> readdirFails exampleEnv \<and> endsWith ''a.mdc'' ''.mdc''
   \<and> map_of (rulesDirFiles staleRecordWorld) ''a.mdc'' = Some ''A''
   \<and> \<not> readFileFails exampleEnv ''a.mdc'' \<and> exampleHash ''A'' \<noteq> []
   \<and> staleRecordA \<in> set (getLatestRuleFiles exampleTie (db staleRecordWorld))
   \<and> rf_filename staleRecordA = ''a.mdc'' \<and> contentHash staleRecordA \<noteq> exampleHash ''A''
   \<and> (\<exists>a b modified. ModificationWarning (Some 100) ''me'' [''a.mdc'']
         = ModificationWarning a b modified \<and> ''a.mdc'' \<in> set modified)
   \<and> staleRecordWorld = probeRulesDir staleRecordWorld"
proof -
  have w: "\<not> rulesDirUnwritable exampleEnv" by (simp add: exampleEnv_def)
  have h: "\<not> False \<and> \<not> readdirFails exampleEnv \<and> endsWith ''a.mdc'' ''.mdc''
     \<and> map_of (rulesDirFiles staleRecordWorld) ''a.mdc'' = Some ''A''
     \<and> \<not> readFileFails exampleEnv ''a.mdc'' \<and> exampleHash ''A'' \<noteq> []
     \<and> staleRecordA \<in> set (getLatestRuleFiles exampleTie (db staleRecordWorld))
     \<and> rf_filename staleRecordA = ''a.mdc'' \<and> contentHash staleRecordA \<noteq> exampleHash ''A''"
    by (simp add: exampleEnv_def endsWith_def staleRecordWorld_def exampleHash_def
        staleRecordA_def getLatestRuleFiles_def getLatestRuleDeployment_def
        latestCandidates_def getRuleFiles_def exampleTie_def)
  from up_to_date_compares_disk_with_template_and_record[OF w example_stale_run,
      of "''a.mdc''" "''A''" staleRecordA] h
  have "(\<exists>a b modified. ModificationWarning (Some 100) ''me'' [''a.mdc'']
           = ModificationWarning a b modified \<and> ''a.mdc'' \<in> set modified)
        \<and> staleRecordWorld = probeRulesDir staleRecordWorld"
    by blast
  with w h example_stale_run show ?thesis by simp
qed

text \<open>
  Both files on disk are the rendered templates, so every desired hash equals the hash
  on disk, and the latest deployment recorded another hash for \<open>a.mdc\<close>: the result is
  the warning for \<open>a.mdc\<close>, not already up to date.
\<close>

theorem up_to_date_despite_record_counterexample:
  "setupProjectRules exampleHash exampleTie exampleTemplates exampleEnv False True
     (Some ''me'') (Some ''/p'') staleRecordWorld
   = (ModificationWarning (Some 100) ''me'' [''a.mdc''], staleRecordWorld)
   \<and> map filename (renderRules (now exampleEnv) exampleTemplates) = [''a.mdc'', ''b.mdc'']
   \<and> currentHashes exampleHash exampleEnv staleRecordWorld ''a.mdc''
       = newHashesOf exampleHash (renderRules (now exampleEnv) exampleTemplates) ''a.mdc''
   \<and> currentHashes exampleHash exampleEnv staleRecordWorld ''b.mdc''
       = newHashesOf exampleHash (renderRules (now exampleEnv) exampleTemplates) ''b.mdc''
   \<and> map contentHash (getLatestRuleFiles exampleTie (db staleRecordWorld)) = [''#old'', ''#B'']
   \<and> currentHashes exampleHash exampleEnv staleRecordWorld ''a.mdc'' = Some ''#A''"
proof -
  have 1: "map filename (renderRules (now exampleEnv) exampleTemplates) = [''a.mdc'', ''b.mdc'']"
    by (simp add: renderRules_def exampleTemplates_def)
  have 2: "currentHashes exampleHash exampleEnv staleRecordWorld ''a.mdc''
       = newHashesOf exampleHash (renderRules (now exampleEnv) exampleTemplates) ''a.mdc''"
    by code_simp
  have 3: "currentHashes exampleHash exampleEnv staleRecordWorld ''b.mdc''
       = newHashesOf exampleHash (renderRules (now exampleEnv) exampleTemplates) ''b.mdc''"
    by code_simp
  have 4: "map contentHash (getLatestRuleFiles exampleTie (db staleRecordWorld)) = [''#old'', ''#B'']"
    by code_simp
  have 5: "currentHashes exampleHash exampleEnv staleRecordWorld ''a.mdc'' = Some ''#A''"
    by code_simp
  from example_stale_run 1 2 3 4 5 show ?thesis by simp
qed

text \<open>
  C6. Let the rules directory be writable and \<open>forceUpdate\<close> false. Let \<open>A\<close> be a
  \<^verbatim>\<open>.mdc\<close> file that can be read on disk, and let the latest deployment hold a file row
  for \<open>A\<close> whose hash differs from the (non-empty) hash of the content on disk. Then the
  result is the warning; it carries the latest deployment's timestamp and its actor
  (Unknown when none was recorded) and lists \<open>A\<close>. The database and the backups are
  unchanged, and so is every \<^verbatim>\<open>.mdc\<close> file: the directory is as the writability probe
  leaves it.
\<close>

theorem drift_gives_warning_and_no_write:
  assumes "\<not> rulesDirUnwritable e" "\<not> forceUpdate" "\<not> readdirFails e"
    and "endsWith A ''.mdc''" "map_of (rulesDirFiles w) A = Some c" "\<not> readFileFails e A"
    and "H c \<noteq> []"
    and latest: "getLatestRuleDeployment tie (db w) = Some l"
    and rf: "rf \<in> set (rule_files (db w))" "deploymentId rf = dep_id l" "rf_filename rf = A"
    and differs: "contentHash rf \<noteq> H c"
    and run: "setupProjectRules H tie templates e forceUpdate backupExisting who wp w = (out, w')"
  shows "(\<exists>modified. out = ModificationWarning (Some (deployedAt l)) (orUnknown (deployedBy l)) modified
            \<and> A \<in> set modified)
       \<and> db w' = db w \<and> backupDirs w' = backupDirs w
       \<and> rulesDirFiles w' = rulesDirFiles (probeRulesDir w)
       \<and> (\<forall>f. endsWith f ''.mdc'' \<longrightarrow> map_of (rulesDirFiles w') f = map_of (rulesDirFiles w) f)"
proof -
  from rf latest have m: "rf \<in> set (getLatestRuleFiles tie (db w))"
    by (simp add: set_getLatestRuleFiles)
  from drift_warning[where H=H and c=c and templates=templates and backupExisting=backupExisting
      and who=who and wp=wp, OF assms(1-7) m rf(3) differs] run latest
  have o: "out = ModificationWarning (Some (deployedAt l)) (orUnknown (deployedBy l))
             (map rf_filename (filter (modifiedSince (currentHashes H e w)) (getLatestRuleFiles tie (db w))))"
    and mem: "A \<in> set (map rf_filename (filter (modifiedSince (currentHashes H e w)) (getLatestRuleFiles tie (db w))))"
    and w': "w' = probeRulesDir w"
    by auto
  have "\<And>f. endsWith f ''.mdc'' \<Longrightarrow> map_of (rulesDirFiles (probeRulesDir w)) f = map_of (rulesDirFiles w) f"
    using mdc_not_probe by (simp add: probeRulesDir_def)
  with o mem w' show ?thesis by (auto simp: probeRulesDir_def)
qed

theorem drift_gives_warning_and_no_write_witness:
  "\<not> rulesDirUnwritable exampleEnv \<and> \<not> readdirFails exampleEnv
   \<and> endsWith ''b.mdc'' ''.mdc'' \<and> map_of (rulesDirFiles editedWorld) ''b.mdc'' = Some ''edited''
   \<and> \<not> readFileFails exampleEnv ''b.mdc'' \<and> exampleHash ''edited'' \<noteq> []
   \<and> getLatestRuleDeployment exampleTie (db editedWorld) = Some deployedRow
   \<and> recordedB \<in> set (rule_files (db editedWorld))
   \<and> deploymentId recordedB = dep_id deployedRow \<and> rf_filename recordedB = ''b.mdc''
   \<and> contentHash recordedB \<noteq> exampleHash ''edited''
   \<and> setupProjectRules exampleHash exampleTie exampleTemplates exampleEnv False True
       (Some ''me'') (Some ''/p'') editedWorld
     = (ModificationWarning (Some 100) ''me'' [''b.mdc''], editedWorld)
   \<and> (\<exists>modified. ModificationWarning (Some 100) ''me'' [''b.mdc'']
         = ModificationWarning (Some (deployedAt deployedRow)) (orUnknown (deployedBy deployedRow))
             modified \<and> ''b.mdc'' \<in> set modified)
   \<and> rulesDirFiles editedWorld = rulesDirFiles (probeRulesDir editedWorld)"
proof -
  have h1: "\<not> rulesDirUnwritable exampleEnv" and h2: "\<not> False"
    and h3: "\<not> readdirFails exampleEnv" and h6: "\<not> readFileFails exampleEnv ''b.mdc''"
    by (simp_all add: exampleEnv_def)
  have h4: "endsWith ''b.mdc'' ''.mdc''" by (simp add: endsWith_def)
  have h5: "map_of (rulesDirFiles editedWorld) ''b.mdc'' = Some ''edited''"
    by (simp add: editedWorld_def)
  have h7: "exampleHash ''edited'' \<noteq> []" by (simp add: exampleHash_def)
  have l: "getLatestRuleDeployment exampleTie (db editedWorld) = Some deployedRow"
    by (simp add: getLatestRuleDeployment_def latestCandidates_def editedWorld_def
        deployedWorld_def deployedRow_def exampleTie_def)
  have r1: "recordedB \<in> set (rule_files (db editedWorld))"
    by (simp add: recordedB_def editedWorld_def deployedWorld_def)
  have r2: "deploymentId recordedB = dep_id deployedRow"
    and r3: "rf_filename recordedB = ''b.mdc''"
    and r4: "contentHash recordedB \<noteq> exampleHash ''edited''"
    by (simp_all add: recordedB_def deployedRow_def exampleHash_def)
  from drift_gives_warning_and_no_write[where H=exampleHash and c="''edited''",
      OF h1 h2 h3 h4 h5 h6 h7 l r1 r2 r3 r4 example_drift_run]
  have "(\<exists>modified. ModificationWarning (Some 100) ''me'' [''b.mdc'']
         = ModificationWarning (Some (deployedAt deployedRow)) (orUnknown (deployedBy deployedRow))
             modified \<and> ''b.mdc'' \<in> set modified)
       \<and> rulesDirFiles editedWorld = rulesDirFiles (probeRulesDir editedWorld)"
    by blast
  with h1 h3 h4 h5 h6 h7 l r1 r2 r3 r4 example_drift_run show ?thesis by simp
qed

section \<open>Backup before overwrite\<close>




section \<open>A recorded file that is missing from disk\<close>

lemma example_retired_run:
  "setupProjectRules exampleHash exampleTie exampleTemplates exampleEnv False True
     (Some ''me'') (Some ''/p'') retiredFileWorld
   = (AlreadyUpToDate, retiredFileWorld)"
  by code_simp

lemma example_deleted_run:
  "fst (setupProjectRules exampleHash exampleTie exampleTemplates exampleEnv False True
     (Some ''me'') (Some ''/p'') deletedFileWorld)
   = Deployed 2 [''a.mdc'', ''b.mdc''] (Some ''/p/.cursor/rules/backups/backup-2025-01-02T03-04-05-678Z'')"
  by code_simp

text \<open>
  C10, as the code has it. Let the rules directory be writable and \<open>forceUpdate\<close> false,
  and let \<open>F\<close> be recorded in the latest deployment and absent from disk or unreadable.
  Then \<open>F\<close> never triggers the warning: a warning does not list \<open>F\<close>, and it is caused
  by another recorded file whose hash on disk differs from its record. When \<open>F\<close> is
  also one of the templates, its absence makes the template test true: the result is
  not already up to date, and when no recorded file differs from its record the
  operation takes the write path. A recorded file that is not among the templates does
  not make the template test true.
\<close>

theorem missing_recorded_file_is_no_drift:
  assumes writable: "\<not> rulesDirUnwritable e" and nf: "\<not> forceUpdate"
    and rec: "rf \<in> set (getLatestRuleFiles tie (db w))" "rf_filename rf = F"
    and absent: "map_of (rulesDirFiles w) F = None \<or> readFileFails e F"
    and run: "setupProjectRules H tie templates e forceUpdate backupExisting who wp w = (out, w')"
  shows "(\<forall>a b modified. out = ModificationWarning a b modified \<longrightarrow>
            F \<notin> set modified
            \<and> (\<exists>g \<in> set (getLatestRuleFiles tie (db w)).
                  rf_filename g \<noteq> F \<and> modifiedSince (currentHashes H e w) g))
       \<and> (F \<in> filename ` set templates \<longrightarrow>
            out \<noteq> AlreadyUpToDate
            \<and> ((\<forall>g \<in> set (getLatestRuleFiles tie (db w)). \<not> modifiedSince (currentHashes H e w) g)
                \<longrightarrow> writePhase e (resolveRulesDir wp (cwd e))
                      (existingFilesOf e (rulesDirFiles (probeRulesDir w)))
                      (renderRules (now e) templates)
                      (newHashesOf H (renderRules (now e) templates)) backupExisting who
                      (probeRulesDir w) = (out, w')))"
proof -
  let ?ex = "existingFilesOf e (rulesDirFiles (probeRulesDir w))"
  let ?nr = "renderRules (now e) templates"
  let ?cur = "currentHashes H e w"
  let ?latest = "getLatestRuleFiles tie (db w)"
  let ?hc = "hasChangesOf ?cur ?latest"
  let ?hn = "hasNewTemplateOf ?cur (newHashesOf H ?nr) ?nr"
  note c = setupProjectRules_cases[OF writable, of H tie templates forceUpdate backupExisting who wp w]
  from absent have cur: "?cur F = None" by (auto simp: currentHashes_apply)
  then have nm: "\<And>g. rf_filename g = F \<Longrightarrow> \<not> modifiedSince ?cur g"
    by (simp add: modifiedSince_def)
  have hc_iff: "?hc \<longleftrightarrow> (\<exists>g \<in> set ?latest. modifiedSince ?cur g)"
    by (simp add: hasChangesOf_def list_ex_iff)
  have wp_out: "\<And>o2 w2. writePhase e (resolveRulesDir wp (cwd e)) ?ex ?nr (newHashesOf H ?nr)
                 backupExisting who (probeRulesDir w) = (o2, w2)
        \<Longrightarrow> o2 \<noteq> AlreadyUpToDate \<and> (\<forall>a b c. o2 \<noteq> ModificationWarning a b c)"
    by (rule writePhase_not_noop)
  have first: "\<forall>a b modified. out = ModificationWarning a b modified \<longrightarrow>
            F \<notin> set modified
            \<and> (\<exists>g \<in> set ?latest. rf_filename g \<noteq> F \<and> modifiedSince ?cur g)"
  proof (intro allI impI)
    fix a b modified assume o: "out = ModificationWarning a b modified"
    have "?hc \<and> modified = map rf_filename (filter (modifiedSince ?cur) ?latest)"
    proof (cases "?ex \<noteq> [] \<and> \<not> forceUpdate \<and> ?hc")
      case True
      with run c o show ?thesis by (auto simp: Let_def split: if_splits)
    next
      case False
      with run c o wp_out show ?thesis by (auto simp: Let_def split: if_splits)
    qed
    with nm hc_iff show "F \<notin> set modified
            \<and> (\<exists>g \<in> set ?latest. rf_filename g \<noteq> F \<and> modifiedSince ?cur g)"
      by auto
  qed
  have second: "F \<in> filename ` set templates \<longrightarrow>
            out \<noteq> AlreadyUpToDate
            \<and> ((\<forall>g \<in> set ?latest. \<not> modifiedSince ?cur g)
                \<longrightarrow> writePhase e (resolveRulesDir wp (cwd e)) ?ex ?nr (newHashesOf H ?nr)
                      backupExisting who (probeRulesDir w) = (out, w'))"
  proof
    assume "F \<in> filename ` set templates"
    then have "F \<in> set (map filename ?nr)" by (simp add: filenames_renderRules)
    then obtain rule where "rule \<in> set ?nr" "filename rule = F" by auto
    with cur have hn: "?hn" using hasNewTemplateOf_iff[of ?cur "newHashesOf H ?nr" ?nr] by force
    have 1: "out \<noteq> AlreadyUpToDate"
    proof (cases "?ex \<noteq> [] \<and> \<not> forceUpdate \<and> ?hc")
      case True
      with run c show ?thesis by (auto simp: Let_def)
    next
      case False
      with run c hn wp_out show ?thesis by (auto simp: Let_def split: if_splits)
    qed
    have 2: "(\<forall>g \<in> set ?latest. \<not> modifiedSince ?cur g)
                \<longrightarrow> writePhase e (resolveRulesDir wp (cwd e)) ?ex ?nr (newHashesOf H ?nr)
                      backupExisting who (probeRulesDir w) = (out, w')"
    proof
      assume "\<forall>g \<in> set ?latest. \<not> modifiedSince ?cur g"
      with hc_iff have "\<not> ?hc" by simp
      with run c hn show "writePhase e (resolveRulesDir wp (cwd e)) ?ex ?nr (newHashesOf H ?nr)
                      backupExisting who (probeRulesDir w) = (out, w')"
        by (simp add: Let_def)
    qed
    from 1 2 show "out \<noteq> AlreadyUpToDate
            \<and> ((\<forall>g \<in> set ?latest. \<not> modifiedSince ?cur g)
                \<longrightarrow> writePhase e (resolveRulesDir wp (cwd e)) ?ex ?nr (newHashesOf H ?nr)
                      backupExisting who (probeRulesDir w) = (out, w'))" by simp
  qed
  from first second show ?thesis by simp
qed

theorem missing_recorded_file_is_no_drift_witness:
  "\<not> rulesDirUnwritable exampleEnv
   \<and> recordedB \<in> set (getLatestRuleFiles exampleTie (db deletedFileWorld))
   \<and> rf_filename recordedB = ''b.mdc''
   \<and> map_of (rulesDirFiles deletedFileWorld) ''b.mdc'' = None
   \<and> ''b.mdc'' \<in> filename ` set exampleTemplates
   \<and> fst (setupProjectRules exampleHash exampleTie exampleTemplates exampleEnv False True
            (Some ''me'') (Some ''/p'') deletedFileWorld) \<noteq> AlreadyUpToDate
   \<and> fst (setupProjectRules exampleHash exampleTie exampleTemplates exampleEnv False True
            (Some ''me'') (Some ''/p'') deletedFileWorld)
       = Deployed 2 [''a.mdc'', ''b.mdc'']
           (Some ''/p/.cursor/rules/backups/backup-2025-01-02T03-04-05-678Z'')"
proof -
  have w: "\<not> rulesDirUnwritable exampleEnv" and nf: "\<not> False"
    by (simp_all add: exampleEnv_def)
  have r1: "recordedB \<in> set (getLatestRuleFiles exampleTie (db deletedFileWorld))"
    by (simp add: getLatestRuleFiles_def getLatestRuleDeployment_def latestCandidates_def
        getRuleFiles_def exampleTie_def deletedFileWorld_def deployedWorld_def recordedB_def)
  have r2: "rf_filename recordedB = ''b.mdc''" by (simp add: recordedB_def)
  have a: "map_of (rulesDirFiles deletedFileWorld) ''b.mdc'' = None"
    by (simp add: deletedFileWorld_def)
  then have a': "map_of (rulesDirFiles deletedFileWorld) ''b.mdc'' = None
                 \<or> readFileFails exampleEnv ''b.mdc''" by simp
  have t: "''b.mdc'' \<in> filename ` set exampleTemplates" by (simp add: exampleTemplates_def)
  from missing_recorded_file_is_no_drift[where H=exampleHash and templates=exampleTemplates
      and backupExisting=True and who="Some ''me''" and wp="Some ''/p''",
      OF w nf r1 r2 a' prod.collapse[symmetric]] t
  have "fst (setupProjectRules exampleHash exampleTie exampleTemplates exampleEnv False True
            (Some ''me'') (Some ''/p'') deletedFileWorld) \<noteq> AlreadyUpToDate"
    by blast
  with w r1 r2 a t example_deleted_run show ?thesis by simp
qed

text \<open>
  The latest deployment recorded \<open>old.mdc\<close>, which is absent from disk and is not a
  template; both templates are on disk as recorded. The template test is false and the
  result is already up to date: the operation does not proceed to write.
\<close>

theorem missing_recorded_file_counterexample:
  "setupProjectRules exampleHash exampleTie exampleTemplates exampleEnv False True
     (Some ''me'') (Some ''/p'') retiredFileWorld
   = (AlreadyUpToDate, retiredFileWorld)
   \<and> recordedOld \<in> set (getLatestRuleFiles exampleTie (db retiredFileWorld))
   \<and> rf_filename recordedOld = ''old.mdc''
   \<and> map_of (rulesDirFiles retiredFileWorld) ''old.mdc'' = None
   \<and> existingFilesOf exampleEnv (rulesDirFiles (probeRulesDir retiredFileWorld))
       = [''a.mdc'', ''b.mdc'']
   \<and> \<not> hasNewTemplateOf (currentHashes exampleHash exampleEnv retiredFileWorld)
         (newHashesOf exampleHash (renderRules (now exampleEnv) exampleTemplates))
         (renderRules (now exampleEnv) exampleTemplates)"
proof -
  have 1: "recordedOld \<in> set (getLatestRuleFiles exampleTie (db retiredFileWorld))"
    by (simp add: getLatestRuleFiles_def getLatestRuleDeployment_def latestCandidates_def
        getRuleFiles_def exampleTie_def retiredFileWorld_def recordedOld_def)
  have 2: "rf_filename recordedOld = ''old.mdc''" by (simp add: recordedOld_def)
  have 3: "map_of (rulesDirFiles retiredFileWorld) ''old.mdc'' = None"
    by (simp add: retiredFileWorld_def)
  have 4: "existingFilesOf exampleEnv (rulesDirFiles (probeRulesDir retiredFileWorld))
       = [''a.mdc'', ''b.mdc'']"
    by (simp add: existingFilesOf_def probeRulesDir_def retiredFileWorld_def exampleEnv_def
        endsWith_def)
  have 5: "\<not> hasNewTemplateOf (currentHashes exampleHash exampleEnv retiredFileWorld)
         (newHashesOf exampleHash (renderRules (now exampleEnv) exampleTemplates))
         (renderRules (now exampleEnv) exampleTemplates)"
    by code_simp
  from example_retired_run 1 2 3 4 5 show ?thesis by simp
qed

section \<open>The rules directory\<close>











section \<open>Calling the operation twice\<close>

lemma replaceTimestamp_no_token:
  "\<not> containsToken s \<Longrightarrow> replaceTimestamp ts s = s"
proof (induction s)
  case Nil
  then show ?case by simp
next
  case (Cons c cs)
  from Cons.prems
  have both: "\<not> startsWith (c # cs) ''{timestamp}'' \<and> \<not> containsToken cs"
    by (simp only: containsToken.simps de_Morgan_disj simp_thms)
  note nst = both[THEN conjunct1] and nct = both[THEN conjunct2]
  from nst have "replaceTimestamp ts (c # cs) = c # replaceTimestamp ts cs"
    by (simp only: replaceTimestamp.simps if_False)
  with Cons.IH[OF nct] show ?case by simp
qed

lemma renderRules_no_token:
  assumes "\<forall>t \<in> set templates. \<not> containsToken (content t)"
  shows "renderRules ts templates = templates"
  using assms by (induction templates) (simp_all add: renderRules_def replaceTimestamp_no_token)



lemma example_second_run:
  "setupProjectRules exampleHash exampleTie exampleTemplates laterEnv False True
     (Some ''me'') (Some ''/p'') deployedWorld
   = (AlreadyUpToDate, deployedWorld)"
  by code_simp






section \<open>Remarks on the inputs of the repository\<close>

text \<open>The eight filenames of \<^verbatim>\<open>CURSOR_RULES_TEMPLATES\<close> are distinct and end in
  \<^verbatim>\<open>.mdc\<close>, as the theorems above ask of the templates.\<close>

lemma template_filenames_distinct_mdc:
  "distinct TEMPLATE_FILENAMES \<and> TEMPLATE_FILENAMES \<noteq> []
   \<and> list_all (\<lambda>f. endsWith f ''.mdc'') TEMPLATE_FILENAMES"
  by (simp add: TEMPLATE_FILENAMES_def endsWith_def)

text \<open>The test for the subpath is a test on the string: a path that names the rules
  directory with a trailing separator does not end in \<^verbatim>\<open>.cursor/rules\<close>, and the subpath
  is appended to it.\<close>

lemma trailing_separator_is_appended_to:
  "\<not> endsWith ''/proj/.cursor/rules/'' ''.cursor/rules''
   \<and> resolveRulesDir (Some ''/proj/.cursor/rules/'') ''/home/u''
       = ''/proj/.cursor/rules/.cursor/rules''"
  by (simp add: resolveRulesDir_def path_join_def posix_normalize_def normalizeString_def
      endsWith_def)

end
